theory Spec2Isabelle
  imports Complex_Main "HOL-Library.Word"
begin

unbundle bit_operations_syntax

section \<open>Common types\<close>

text \<open>
  Process ids are signed integers with \<open>-1\<close> for "none". The unsigned counters of the
  C code are machine words, so that every \<open>++\<close>, \<open>+=\<close> and \<open>-=\<close> wraps as in C.

  Every policy keeps its nodes in a static array (a pool) and links them through
  \<open>next\<close>/\<open>prev\<close> pointers. A pool is modelled as a function from pool index to
  node record, and a NULL-terminated chain of nodes as the list of the pool indices
  met when following \<open>next\<close> from the head pointer. A pointer to a node is a pool
  index, a nullable pointer an \<open>option\<close>.
\<close>

type_synonym pid32 = int
type_synonym u32 = "32 word"
type_synonym u64 = "64 word"


section \<open>The kernel environment (scheduler.h, process.h)\<close>

text \<open>
  The process table, \<open>currpid\<close>, the flag \<open>need_resched\<close> and \<open>context_switch\<close> belong to
  the rest of the kernel. The schedulers read and write \<open>proctab[pid].pprio\<close> and
  \<open>proctab[pid].pstate\<close> only; the calls of \<open>context_switch(old, new)\<close> are recorded in
  order.
\<close>

datatype pstate = PR_FREE | PR_CURR | PR_READY | PR_SLEEP | PR_WAIT | PR_SUSP

record kernel_env =
  proctab_pprio :: "pid32 \<Rightarrow> u32"
  proctab_pstate :: "pid32 \<Rightarrow> pstate"
  currpid :: pid32
  need_resched :: bool
  context_switch_calls :: "(pid32 \<times> pid32) list"

definition PRIORITY_MAX :: u32 where "PRIORITY_MAX = 99"
definition PRIORITY_DEFAULT :: u32 where "PRIORITY_DEFAULT = 50"


section \<open>Completely fair scheduler (cfs.h, cfs.c)\<close>

definition CFS_TARGET_LATENCY :: u32 where "CFS_TARGET_LATENCY = 20"
definition CFS_MIN_GRANULARITY :: u32 where "CFS_MIN_GRANULARITY = 4"
definition CFS_NICE_DEFAULT :: int where "CFS_NICE_DEFAULT = 0"
definition CFS_NICE_LEVELS :: int where "CFS_NICE_LEVELS = 40"
definition CFS_WEIGHT_NICE0 :: u64 where "CFS_WEIGHT_NICE0 = 1024"
definition CFS_MAX_TASKS :: nat where "CFS_MAX_TASKS = 256"

definition cfs_weight_table :: "u32 list" where
  "cfs_weight_table =
    [88761, 71755, 56483, 46273, 36291,
     29154, 23254, 18705, 14949, 11916,
     9548,  7620,  6100,  4904,  3906,
     3121,  2501,  1991,  1586,  1277,
     1024,  820,   655,   526,   423,
     335,   272,   215,   172,   137,
     110,   87,    70,    56,    45,
     36,    29,    23,    18,    15]"

text \<open>The task control block. The red-black tree fields are never used by cfs.c.\<close>

record cfs_task =
  ct_pid :: pid32
  ct_nice :: int
  ct_weight :: u32
  ct_vruntime :: u64
  ct_exec_start :: u64
  ct_sum_exec :: u64
  ct_prev_sum_exec :: u64
  ct_sleep_start :: u64
  ct_on_rq :: bool

text \<open>
  The file-level state of cfs.c: the task pool and its free list, the run queue
  \<open>cfs_rq\<close> (fields \<open>rq_...\<close>), the statistics, the system clock, and the calls made
  to the external \<open>context_switch(old, new)\<close>, recorded in order.
\<close>

record cfs_state =
  cfs_task_pool :: "nat \<Rightarrow> cfs_task"
  cfs_free_tasks :: "nat list"
  rq_nr_running :: u32
  rq_min_vruntime :: u64
  rq_clock :: u64
  rq_clock_task :: u64
  rq_load_weight :: u32
  rq_tasks_timeline :: "nat list"
  rq_curr :: "nat option"
  rq_leftmost :: "nat option"
  cfs_switches :: u64
  cfs_total_runtime :: u64
  cfs_sleep_time :: u64
  cfs_system_clock :: u64
  cfs_context_switches :: "(pid32 \<times> pid32) list"

definition max64 :: "u64 \<Rightarrow> u64 \<Rightarrow> u64" where
  "max64 a b = (if a > b then a else b)"

definition cfs_zero_task :: cfs_task where
  "cfs_zero_task = \<lparr>ct_pid = 0, ct_nice = 0, ct_weight = 0, ct_vruntime = 0,
     ct_exec_start = 0, ct_sum_exec = 0, ct_prev_sum_exec = 0, ct_sleep_start = 0,
     ct_on_rq = False\<rparr>"

definition cfs_alloc_task :: "cfs_state \<Rightarrow> (nat \<times> cfs_state) option" where
  "cfs_alloc_task s =
     (case cfs_free_tasks s of
        [] \<Rightarrow> None
      | t # rest \<Rightarrow>
          Some (t, s\<lparr>cfs_free_tasks := rest,
                     cfs_task_pool := (cfs_task_pool s)(t := cfs_zero_task)\<rparr>))"

definition cfs_free_task :: "nat \<Rightarrow> cfs_state \<Rightarrow> cfs_state" where
  "cfs_free_task t s = s\<lparr>cfs_free_tasks := t # cfs_free_tasks s\<rparr>"

definition cfs_find_task :: "cfs_state \<Rightarrow> pid32 \<Rightarrow> nat option" where
  "cfs_find_task s p =
     find (\<lambda>t. ct_pid (cfs_task_pool s t) = p) (rq_tasks_timeline s)"

text \<open>The walk of \<open>insert_task\<close>: skip every node whose vruntime is at most the task's.\<close>

fun timeline_insert :: "(nat \<Rightarrow> cfs_task) \<Rightarrow> nat \<Rightarrow> nat list \<Rightarrow> nat list" where
  "timeline_insert pool t [] = [t]"
| "timeline_insert pool t (c # cs) =
     (if ct_vruntime (pool c) \<le> ct_vruntime (pool t)
      then c # timeline_insert pool t cs
      else t # c # cs)"

definition cfs_insert_task :: "nat \<Rightarrow> cfs_state \<Rightarrow> cfs_state" where
  "cfs_insert_task t s =
     (let pool = (cfs_task_pool s)(t := (cfs_task_pool s t)\<lparr>ct_on_rq := True\<rparr>)
      in case rq_tasks_timeline s of
           [] \<Rightarrow> s\<lparr>cfs_task_pool := pool, rq_tasks_timeline := [t], rq_leftmost := Some t\<rparr>
         | c # cs \<Rightarrow>
             if ct_vruntime (pool c) \<le> ct_vruntime (pool t)
             then s\<lparr>cfs_task_pool := pool,
                    rq_tasks_timeline := c # timeline_insert pool t cs\<rparr>
             else s\<lparr>cfs_task_pool := pool, rq_tasks_timeline := t # c # cs,
                    rq_leftmost := Some t\<rparr>)"

text \<open>\<open>task->next\<close> for a task of the chain: its successor, NULL for the last one.\<close>

fun next_in :: "nat \<Rightarrow> nat list \<Rightarrow> nat option" where
  "next_in t [] = None"
| "next_in t [c] = None"
| "next_in t (c # d # cs) = (if c = t then Some d else next_in t (d # cs))"

definition cfs_remove_task :: "nat \<Rightarrow> cfs_state \<Rightarrow> cfs_state" where
  "cfs_remove_task t s =
     (if \<not> ct_on_rq (cfs_task_pool s t) then s
      else s\<lparr>cfs_task_pool := (cfs_task_pool s)(t := (cfs_task_pool s t)\<lparr>ct_on_rq := False\<rparr>),
             rq_tasks_timeline := remove1 t (rq_tasks_timeline s),
             rq_leftmost := (if rq_leftmost s = Some t
                             then next_in t (rq_tasks_timeline s)
                             else rq_leftmost s)\<rparr>)"

definition cfs_init :: cfs_state where
  "cfs_init = \<lparr>cfs_task_pool = (\<lambda>_. cfs_zero_task),
     cfs_free_tasks = [0 ..< CFS_MAX_TASKS],
     rq_nr_running = 0, rq_min_vruntime = 0, rq_clock = 0, rq_clock_task = 0,
     rq_load_weight = 0, rq_tasks_timeline = [], rq_curr = None, rq_leftmost = None,
     cfs_switches = 0, cfs_total_runtime = 0, cfs_sleep_time = 0,
     cfs_system_clock = 0, cfs_context_switches = []\<rparr>"

definition cfs_nice_to_weight :: "int \<Rightarrow> u32" where
  "cfs_nice_to_weight n =
     (let index = n + 20;
          index = (if index < 0 then 0 else index);
          index = (if index \<ge> CFS_NICE_LEVELS then CFS_NICE_LEVELS - 1 else index)
      in cfs_weight_table ! nat index)"

definition cfs_calc_delta :: "u64 \<Rightarrow> u32 \<Rightarrow> u64" where
  "cfs_calc_delta delta_exec w =
     (if w = 0 then delta_exec else (delta_exec * CFS_WEIGHT_NICE0) div ucast w)"

definition cfs_update_vruntime :: "nat \<Rightarrow> u64 \<Rightarrow> cfs_state \<Rightarrow> cfs_state" where
  "cfs_update_vruntime t delta_exec s =
     (let task = cfs_task_pool s t;
          delta_vruntime = cfs_calc_delta delta_exec (ct_weight task)
      in s\<lparr>cfs_task_pool := (cfs_task_pool s)
               (t := task\<lparr>ct_vruntime := ct_vruntime task + delta_vruntime,
                          ct_sum_exec := ct_sum_exec task + delta_exec\<rparr>),
            cfs_total_runtime := cfs_total_runtime s + delta_exec\<rparr>)"

definition cfs_update_min_vruntime :: "cfs_state \<Rightarrow> cfs_state" where
  "cfs_update_min_vruntime s =
     (let v0 = rq_min_vruntime s;
          v1 = (case rq_curr s of None \<Rightarrow> v0 | Some c \<Rightarrow> ct_vruntime (cfs_task_pool s c));
          v2 = (case rq_leftmost s of
                  None \<Rightarrow> v1
                | Some l \<Rightarrow>
                    (if rq_curr s = None then ct_vruntime (cfs_task_pool s l)
                     else if ct_vruntime (cfs_task_pool s l) < v1
                          then ct_vruntime (cfs_task_pool s l) else v1))
      in s\<lparr>rq_min_vruntime := max64 (rq_min_vruntime s) v2\<rparr>)"

definition cfs_sched_latency :: "cfs_state \<Rightarrow> u32" where
  "cfs_sched_latency s =
     (if rq_nr_running s > 8 then CFS_MIN_GRANULARITY * rq_nr_running s
      else CFS_TARGET_LATENCY)"

definition cfs_place_task :: "nat \<Rightarrow> bool \<Rightarrow> cfs_state \<Rightarrow> cfs_state" where
  "cfs_place_task t initial s =
     (let task = cfs_task_pool s t;
          v = (if initial
               then rq_min_vruntime s
                    + cfs_calc_delta (ucast (cfs_sched_latency s div 2)) (ct_weight task)
               else rq_min_vruntime s)
      in s\<lparr>cfs_task_pool := (cfs_task_pool s)
               (t := task\<lparr>ct_vruntime := max64 (ct_vruntime task) v\<rparr>)\<rparr>)"

text \<open>
  \<open>cfs_timeslice\<close> divides by \<open>cfs_rq.load_weight\<close> without a check; the division by
  zero is undefined in C and is the value \<open>None\<close> here.
\<close>

definition cfs_timeslice :: "nat option \<Rightarrow> cfs_state \<Rightarrow> u32 option" where
  "cfs_timeslice task s =
     (case task of
        None \<Rightarrow> Some CFS_TARGET_LATENCY
      | Some t \<Rightarrow>
          if rq_nr_running s = 0 then Some CFS_TARGET_LATENCY
          else if rq_load_weight s = 0 then None
          else (let slc = (cfs_sched_latency s * ct_weight (cfs_task_pool s t))
                              div rq_load_weight s
                in Some (if slc < CFS_MIN_GRANULARITY then CFS_MIN_GRANULARITY
                         else slc)))"

definition cfs_update_current :: "cfs_state \<Rightarrow> cfs_state" where
  "cfs_update_current s =
     (case rq_curr s of
        None \<Rightarrow> s
      | Some c \<Rightarrow>
          (let now = rq_clock_task s;
               delta_exec = now - ct_exec_start (cfs_task_pool s c)
           in if delta_exec = 0 then s
              else (let s1 = cfs_update_vruntime c delta_exec s;
                        s2 = s1\<lparr>cfs_task_pool := (cfs_task_pool s1)
                                 (c := (cfs_task_pool s1 c)\<lparr>ct_exec_start := now\<rparr>)\<rparr>
                    in cfs_update_min_vruntime s2)))"

definition cfs_pick_next_task :: "cfs_state \<Rightarrow> nat option" where
  "cfs_pick_next_task s = rq_leftmost s"

definition cfs_put_prev_task :: "cfs_state \<Rightarrow> cfs_state" where
  "cfs_put_prev_task s =
     (case rq_curr s of
        None \<Rightarrow> s
      | Some prev \<Rightarrow>
          (let s1 = cfs_update_current s;
               s2 = (if ct_on_rq (cfs_task_pool s1 prev)
                     then cfs_insert_task prev (cfs_remove_task prev s1) else s1)
           in s2\<lparr>rq_curr := None\<rparr>))"

definition cfs_set_curr_task :: "nat \<Rightarrow> cfs_state \<Rightarrow> cfs_state" where
  "cfs_set_curr_task t s =
     s\<lparr>cfs_task_pool := (cfs_task_pool s)
          (t := (cfs_task_pool s t)\<lparr>ct_exec_start := rq_clock_task s\<rparr>),
       rq_curr := Some t\<rparr>"

definition cfs_schedule :: "cfs_state \<Rightarrow> cfs_state" where
  "cfs_schedule s =
     (let s1 = s\<lparr>rq_clock := cfs_system_clock s, rq_clock_task := cfs_system_clock s\<rparr>;
          s2 = (if rq_curr s1 \<noteq> None then cfs_update_current s1 else s1);
          s3 = cfs_put_prev_task s2
      in case cfs_pick_next_task s3 of
           None \<Rightarrow> s3
         | Some nxt \<Rightarrow>
             (let s4 = cfs_remove_task nxt s3;
                  s5 = cfs_set_curr_task nxt s4;
                  old_pid = (case rq_curr s5 of
                               Some c \<Rightarrow> ct_pid (cfs_task_pool s5 c)
                             | None \<Rightarrow> -1);
                  new_pid = ct_pid (cfs_task_pool s5 nxt)
              in if old_pid \<noteq> new_pid
                 then s5\<lparr>cfs_switches := cfs_switches s5 + 1,
                         cfs_context_switches :=
                           cfs_context_switches s5 @ [(old_pid, new_pid)]\<rparr>
                 else s5))"

definition cfs_yield :: "cfs_state \<Rightarrow> cfs_state" where
  "cfs_yield s =
     (case rq_curr s of
        None \<Rightarrow> s
      | Some c \<Rightarrow>
          (let s1 = cfs_update_current s;
               s2 = (case rq_leftmost s1 of
                       None \<Rightarrow> s1
                     | Some l \<Rightarrow>
                         s1\<lparr>cfs_task_pool := (cfs_task_pool s1)
                              (c := (cfs_task_pool s1 c)
                                 \<lparr>ct_vruntime := max64 (ct_vruntime (cfs_task_pool s1 c))
                                                       (ct_vruntime (cfs_task_pool s1 l))\<rparr>)\<rparr>)
           in cfs_schedule s2))"

definition cfs_enqueue :: "pid32 \<Rightarrow> cfs_state \<Rightarrow> cfs_state" where
  "cfs_enqueue p s =
     (let admit = (\<lambda>t s'. let s1 = cfs_insert_task t s'
                           in s1\<lparr>rq_nr_running := rq_nr_running s1 + 1,
                                 rq_load_weight := rq_load_weight s1
                                                   + ct_weight (cfs_task_pool s1 t)\<rparr>)
      in case cfs_find_task s p of
           None \<Rightarrow>
             (case cfs_alloc_task s of
                None \<Rightarrow> s
              | Some (t, s1) \<Rightarrow>
                  (let s2 = s1\<lparr>cfs_task_pool := (cfs_task_pool s1)
                                 (t := (cfs_task_pool s1 t)
                                    \<lparr>ct_pid := p, ct_nice := CFS_NICE_DEFAULT,
                                     ct_weight := cfs_nice_to_weight CFS_NICE_DEFAULT,
                                     ct_vruntime := rq_min_vruntime s1,
                                     ct_sum_exec := 0\<rparr>)\<rparr>
                   in admit t (cfs_place_task t True s2)))
         | Some t \<Rightarrow>
             if ct_on_rq (cfs_task_pool s t) then s
             else admit t (cfs_place_task t False s))"

definition cfs_dequeue :: "pid32 \<Rightarrow> cfs_state \<Rightarrow> cfs_state" where
  "cfs_dequeue p s =
     (case cfs_find_task s p of
        None \<Rightarrow> s
      | Some t \<Rightarrow>
          (let s1 = (if rq_curr s = Some t
                     then (cfs_update_current s)\<lparr>rq_curr := None\<rparr> else s);
               s2 = (if ct_on_rq (cfs_task_pool s1 t)
                     then (let r = cfs_remove_task t s1
                           in r\<lparr>rq_nr_running := rq_nr_running r - 1,
                                 rq_load_weight := rq_load_weight r
                                                   - ct_weight (cfs_task_pool r t)\<rparr>)
                     else s1)
           in cfs_update_min_vruntime (cfs_free_task t s2)))"

definition cfs_sleep :: "pid32 \<Rightarrow> cfs_state \<Rightarrow> cfs_state" where
  "cfs_sleep p s =
     (case cfs_find_task s p of
        None \<Rightarrow> s
      | Some t \<Rightarrow>
          (let s0 = s\<lparr>cfs_task_pool := (cfs_task_pool s)
                        (t := (cfs_task_pool s t)\<lparr>ct_sleep_start := cfs_system_clock s\<rparr>)\<rparr>;
               s1 = (if rq_curr s0 = Some t
                     then (cfs_update_current s0)\<lparr>rq_curr := None\<rparr> else s0)
           in if ct_on_rq (cfs_task_pool s1 t)
              then (let r = cfs_remove_task t s1
                    in r\<lparr>rq_nr_running := rq_nr_running r - 1,
                          rq_load_weight := rq_load_weight r
                                            - ct_weight (cfs_task_pool r t)\<rparr>)
              else s1))"

definition cfs_sleeper_credit :: "nat \<Rightarrow> u64 \<Rightarrow> cfs_state \<Rightarrow> u64" where
  "cfs_sleeper_credit t sleep_time s =
     (let w = ct_weight (cfs_task_pool s t);
          max_credit = cfs_calc_delta (ucast (cfs_sched_latency s div 2)) w;
          credit = cfs_calc_delta sleep_time w div 2
      in if credit > max_credit then max_credit else credit)"

definition cfs_wakeup :: "pid32 \<Rightarrow> cfs_state \<Rightarrow> cfs_state" where
  "cfs_wakeup p s =
     (case cfs_find_task s p of
        None \<Rightarrow> s
      | Some t \<Rightarrow>
          if ct_on_rq (cfs_task_pool s t) then s
          else (let sleep_time = cfs_system_clock s - ct_sleep_start (cfs_task_pool s t);
                    s1 = s\<lparr>cfs_sleep_time := cfs_sleep_time s + sleep_time\<rparr>;
                    s2 = (if sleep_time > 0
                          then (let credit = cfs_sleeper_credit t sleep_time s1;
                                    task = cfs_task_pool s1 t
                                in if ct_vruntime task > credit
                                   then s1\<lparr>cfs_task_pool := (cfs_task_pool s1)
                                            (t := task\<lparr>ct_vruntime := ct_vruntime task - credit\<rparr>)\<rparr>
                                   else s1)
                          else s1);
                    s3 = cfs_insert_task t (cfs_place_task t False s2)
                in s3\<lparr>rq_nr_running := rq_nr_running s3 + 1,
                      rq_load_weight := rq_load_weight s3 + ct_weight (cfs_task_pool s3 t)\<rparr>))"

definition cfs_tick :: "cfs_state \<Rightarrow> cfs_state option" where
  "cfs_tick s =
     (let s1 = s\<lparr>cfs_system_clock := cfs_system_clock s + 1\<rparr>;
          s2 = s1\<lparr>rq_clock := cfs_system_clock s1, rq_clock_task := cfs_system_clock s1\<rparr>
      in case rq_curr s2 of
           None \<Rightarrow> Some s2
         | Some c \<Rightarrow>
             (let s3 = cfs_update_current s2
              in case cfs_timeslice (Some c) s3 of
                   None \<Rightarrow> None
                 | Some slc \<Rightarrow>
                     (let ideal_runtime = (ucast slc :: u64);
                          actual_runtime = ct_sum_exec (cfs_task_pool s3 c)
                                           - ct_prev_sum_exec (cfs_task_pool s3 c)
                      in if actual_runtime \<ge> ideal_runtime \<and> rq_nr_running s3 > 1
                         then Some (cfs_schedule
                                (s3\<lparr>cfs_task_pool := (cfs_task_pool s3)
                                      (c := (cfs_task_pool s3 c)
                                         \<lparr>ct_prev_sum_exec := ct_sum_exec (cfs_task_pool s3 c)\<rparr>)\<rparr>))
                         else Some s3)))"


section \<open>Lottery scheduler (lottery.h, lottery.c)\<close>

definition DEFAULT_QUANTUM :: u32 where "DEFAULT_QUANTUM = 10"

definition LOTTERY_DEFAULT_TICKETS :: u32 where "LOTTERY_DEFAULT_TICKETS = 100"
definition LOTTERY_MIN_TICKETS :: u32 where "LOTTERY_MIN_TICKETS = 1"
definition LOTTERY_MAX_TICKETS :: u32 where "LOTTERY_MAX_TICKETS = 10000"
definition LOTTERY_COMPENSATION_ENABLED :: bool where "LOTTERY_COMPENSATION_ENABLED = True"
definition LOTTERY_MAX_ENTRIES :: nat where "LOTTERY_MAX_ENTRIES = 256"

record lottery_entry =
  le_pid :: pid32
  le_base_tickets :: u32
  le_current_tickets :: u32
  le_compensation :: u32
  le_wins :: u64
  le_total_tickets_held :: u64

text \<open>
  The file-level state of lottery.c. \<open>lot_lottery_pool\<close> is the chain of participants
  from the head pointer \<open>lottery_pool\<close>, \<open>lot_free_entries\<close> the chain of the free list.
  The fields \<open>lot_stats_...\<close> are the members of \<open>stats\<close>; its \<open>fairness_index\<close> is a
  double and is left out.
\<close>

record lottery_state =
  lot_entry_pool :: "nat \<Rightarrow> lottery_entry"
  lot_free_entries :: "nat list"
  lot_lottery_pool :: "nat list"
  lot_total_tickets :: u32
  lot_participant_count :: u32
  lot_compensation_enabled :: bool
  lot_current_pid :: pid32
  lot_time_remaining :: u32
  lot_random_state :: u32
  lot_stats_total_lotteries :: u64
  lot_stats_total_tickets :: u64
  lot_stats_participant_count :: u32
  lot_stats_tickets_transferred :: u32
  lot_stats_compensation_given :: u32

text \<open>The values of the static variables before any call.\<close>

definition lottery_zero_entry :: lottery_entry where
  "lottery_zero_entry = \<lparr>le_pid = 0, le_base_tickets = 0, le_current_tickets = 0,
     le_compensation = 0, le_wins = 0, le_total_tickets_held = 0\<rparr>"

definition lottery_boot :: lottery_state where
  "lottery_boot = \<lparr>lot_entry_pool = (\<lambda>_. lottery_zero_entry),
     lot_free_entries = [], lot_lottery_pool = [],
     lot_total_tickets = 0, lot_participant_count = 0,
     lot_compensation_enabled = LOTTERY_COMPENSATION_ENABLED,
     lot_current_pid = -1, lot_time_remaining = 0, lot_random_state = 1,
     lot_stats_total_lotteries = 0, lot_stats_total_tickets = 0,
     lot_stats_participant_count = 0, lot_stats_tickets_transferred = 0,
     lot_stats_compensation_given = 0\<rparr>"



definition lottery_alloc_entry :: "lottery_state \<Rightarrow> (nat \<times> lottery_state) option" where
  "lottery_alloc_entry s =
     (case lot_free_entries s of
        [] \<Rightarrow> None
      | e # rest \<Rightarrow>
          Some (e, s\<lparr>lot_free_entries := rest,
                     lot_entry_pool := (lot_entry_pool s)(e := lottery_zero_entry)\<rparr>))"

definition lottery_free_entry :: "nat \<Rightarrow> lottery_state \<Rightarrow> lottery_state" where
  "lottery_free_entry e s = s\<lparr>lot_free_entries := e # lot_free_entries s\<rparr>"

definition lottery_find_entry :: "lottery_state \<Rightarrow> pid32 \<Rightarrow> nat option" where
  "lottery_find_entry s p =
     find (\<lambda>e. le_pid (lot_entry_pool s e) = p) (lot_lottery_pool s)"

definition recalculate_totals :: "lottery_state \<Rightarrow> lottery_state" where
  "recalculate_totals s =
     (let total = fold (\<lambda>e acc. acc + le_current_tickets (lot_entry_pool s e))
                       (lot_lottery_pool s) 0;
          cnt = fold (\<lambda>e acc. acc + 1) (lot_lottery_pool s) (0 :: u32)
      in s\<lparr>lot_total_tickets := total, lot_participant_count := cnt,
            lot_stats_total_tickets := ucast total,
            lot_stats_participant_count := cnt\<rparr>)"

definition lottery_init :: "lottery_state \<Rightarrow> lottery_state" where
  "lottery_init s =
     s\<lparr>lot_free_entries := [0 ..< LOTTERY_MAX_ENTRIES],
       lot_lottery_pool := [],
       lot_total_tickets := 0, lot_participant_count := 0,
       lot_current_pid := -1, lot_time_remaining := 0,
       lot_compensation_enabled := LOTTERY_COMPENSATION_ENABLED,
       lot_stats_total_lotteries := 0, lot_stats_total_tickets := 0,
       lot_stats_participant_count := 0, lot_stats_tickets_transferred := 0,
       lot_stats_compensation_given := 0,
       lot_random_state := 1\<rparr>"

definition lottery_shutdown :: "lottery_state \<Rightarrow> lottery_state" where
  "lottery_shutdown s =
     (fold lottery_free_entry (lot_lottery_pool s) s)
       \<lparr>lot_lottery_pool := [], lot_total_tickets := 0,
        lot_participant_count := 0, lot_current_pid := -1\<rparr>"




definition lottery_enqueue :: "pid32 \<Rightarrow> lottery_state \<Rightarrow> lottery_state" where
  "lottery_enqueue p s =
     (if lottery_find_entry s p \<noteq> None then s
      else case lottery_alloc_entry s of
             None \<Rightarrow> s
           | Some (e, s1) \<Rightarrow>
               (let entry = (lot_entry_pool s1 e)
                      \<lparr>le_pid := p, le_base_tickets := LOTTERY_DEFAULT_TICKETS,
                       le_current_tickets := LOTTERY_DEFAULT_TICKETS,
                       le_compensation := 0, le_wins := 0, le_total_tickets_held := 0\<rparr>;
                    total = lot_total_tickets s1 + le_current_tickets entry;
                    cnt = lot_participant_count s1 + 1
                in s1\<lparr>lot_entry_pool := (lot_entry_pool s1)(e := entry),
                      lot_lottery_pool := e # lot_lottery_pool s1,
                      lot_total_tickets := total, lot_participant_count := cnt,
                      lot_stats_total_tickets := ucast total,
                      lot_stats_participant_count := cnt\<rparr>))"


definition lottery_set_tickets :: "pid32 \<Rightarrow> u32 \<Rightarrow> lottery_state \<Rightarrow> u32 \<times> lottery_state" where
  "lottery_set_tickets p tickets s =
     (case lottery_find_entry s p of
        None \<Rightarrow> (0, s)
      | Some e \<Rightarrow>
          (let tickets = (if tickets < LOTTERY_MIN_TICKETS then LOTTERY_MIN_TICKETS
                          else tickets);
               tickets = (if tickets > LOTTERY_MAX_TICKETS then LOTTERY_MAX_TICKETS
                          else tickets);
               entry = lot_entry_pool s e;
               old = le_base_tickets entry;
               total1 = lot_total_tickets s - le_current_tickets entry;
               entry' = entry\<lparr>le_base_tickets := tickets,
                              le_current_tickets := tickets + le_compensation entry\<rparr>;
               total2 = total1 + le_current_tickets entry'
           in (old, s\<lparr>lot_entry_pool := (lot_entry_pool s)(e := entry'),
                       lot_total_tickets := total2,
                       lot_stats_total_tickets := ucast total2\<rparr>)))"

definition lottery_add_tickets :: "pid32 \<Rightarrow> u32 \<Rightarrow> lottery_state \<Rightarrow> lottery_state" where
  "lottery_add_tickets p tickets s =
     (case lottery_find_entry s p of
        None \<Rightarrow> s
      | Some e \<Rightarrow>
          (let new_tickets = le_base_tickets (lot_entry_pool s e) + tickets;
               new_tickets = (if new_tickets > LOTTERY_MAX_TICKETS then LOTTERY_MAX_TICKETS
                              else new_tickets)
           in snd (lottery_set_tickets p new_tickets s)))"

definition lottery_remove_tickets :: "pid32 \<Rightarrow> u32 \<Rightarrow> lottery_state \<Rightarrow> lottery_state" where
  "lottery_remove_tickets p tickets s =
     (case lottery_find_entry s p of
        None \<Rightarrow> s
      | Some e \<Rightarrow>
          (let new_tickets = (if tickets \<ge> le_base_tickets (lot_entry_pool s e)
                              then LOTTERY_MIN_TICKETS
                              else le_base_tickets (lot_entry_pool s e) - tickets)
           in snd (lottery_set_tickets p new_tickets s)))"

definition lottery_transfer_tickets ::
  "pid32 \<Rightarrow> pid32 \<Rightarrow> u32 \<Rightarrow> lottery_state \<Rightarrow> u32 \<times> lottery_state" where
  "lottery_transfer_tickets from_pid to_pid tickets s =
     (case (lottery_find_entry s from_pid, lottery_find_entry s to_pid) of
        (Some from, Some to) \<Rightarrow>
          (let available = le_base_tickets (lot_entry_pool s from) - LOTTERY_MIN_TICKETS;
               to_transfer = (if tickets < available then tickets else available)
           in if to_transfer = 0 then (0, s)
              else (let space = LOTTERY_MAX_TICKETS - le_base_tickets (lot_entry_pool s to);
                        to_transfer = (if to_transfer > space then space else to_transfer);
                        s1 = snd (lottery_set_tickets from_pid
                                    (le_base_tickets (lot_entry_pool s from) - to_transfer) s);
                        s2 = snd (lottery_set_tickets to_pid
                                    (le_base_tickets (lot_entry_pool s1 to) + to_transfer) s1)
                    in (to_transfer,
                        s2\<lparr>lot_stats_tickets_transferred :=
                             lot_stats_tickets_transferred s2 + to_transfer\<rparr>)))
      | _ \<Rightarrow> (0, s))"

text \<open>
  The arguments \<open>fraction_used\<close> and \<open>factor\<close> are C floats. A finite float is a
  rational number, and the comparisons with \<open>0.0f\<close> and \<open>1.0f\<close> are exact on it. The
  single-precision products \<open>(uint32_t)(base * (1.0f / fraction_used - 1.0f))\<close> and
  \<open>(uint32_t)(base * factor)\<close> are not modelled: they are the parameters \<open>comp_of\<close>
  and \<open>scaled\<close> of the two functions.
\<close>

definition lottery_compensate ::
  "(u32 \<Rightarrow> rat \<Rightarrow> u32) \<Rightarrow> pid32 \<Rightarrow> rat \<Rightarrow> lottery_state \<Rightarrow> lottery_state" where
  "lottery_compensate comp_of p fraction_used s =
     (if \<not> lot_compensation_enabled s then s
      else case lottery_find_entry s p of
             None \<Rightarrow> s
           | Some e \<Rightarrow>
               (let entry = lot_entry_pool s e
                in if fraction_used \<le> 0 \<or> fraction_used \<ge> 1
                   then (let total1 = lot_total_tickets s - le_compensation entry;
                             entry' = entry\<lparr>le_compensation := 0,
                                            le_current_tickets := le_base_tickets entry\<rparr>;
                             total2 = total1 + le_current_tickets entry'
                         in s\<lparr>lot_entry_pool := (lot_entry_pool s)(e := entry'),
                               lot_total_tickets := total2,
                               lot_stats_total_tickets := ucast total2\<rparr>)
                   else (let comp = comp_of (le_base_tickets entry) fraction_used;
                             total1 = lot_total_tickets s - le_compensation entry;
                             entry' = entry\<lparr>le_compensation := comp,
                                            le_current_tickets := le_base_tickets entry + comp\<rparr>;
                             total2 = total1 + le_current_tickets entry'
                         in s\<lparr>lot_entry_pool := (lot_entry_pool s)(e := entry'),
                               lot_total_tickets := total2,
                               lot_stats_compensation_given :=
                                 lot_stats_compensation_given s + comp,
                               lot_stats_total_tickets := ucast total2\<rparr>)))"

definition lottery_compensation_enable :: "bool \<Rightarrow> lottery_state \<Rightarrow> lottery_state" where
  "lottery_compensation_enable enable s =
     (let s0 = s\<lparr>lot_compensation_enabled := enable\<rparr>
      in if enable then s0
         else (let s1 = fold (\<lambda>e st.
                          st\<lparr>lot_total_tickets :=
                               lot_total_tickets st - le_compensation (lot_entry_pool st e),
                             lot_entry_pool := (lot_entry_pool st)
                               (e := (lot_entry_pool st e)
                                  \<lparr>le_compensation := 0,
                                   le_current_tickets := le_base_tickets (lot_entry_pool st e)\<rparr>)\<rparr>)
                        (lot_lottery_pool s0) s0
               in s1\<lparr>lot_stats_total_tickets := ucast (lot_total_tickets s1)\<rparr>))"

definition lottery_inflate :: "(u32 \<Rightarrow> rat \<Rightarrow> u32) \<Rightarrow> rat \<Rightarrow> lottery_state \<Rightarrow> lottery_state" where
  "lottery_inflate scaled factor s =
     (if factor \<le> 0 then s
      else recalculate_totals
             (fold (\<lambda>e st.
                      let entry = lot_entry_pool st e;
                          new_base = scaled (le_base_tickets entry) factor;
                          new_base = (if new_base < LOTTERY_MIN_TICKETS
                                      then LOTTERY_MIN_TICKETS else new_base);
                          new_base = (if new_base > LOTTERY_MAX_TICKETS
                                      then LOTTERY_MAX_TICKETS else new_base)
                      in st\<lparr>lot_entry_pool := (lot_entry_pool st)
                              (e := entry\<lparr>le_base_tickets := new_base,
                                         le_current_tickets := new_base + le_compensation entry\<rparr>)\<rparr>)
                   (lot_lottery_pool s) s))"

text \<open>\<open>lottery_validate\<close>: the checks of the loop, then the two counter comparisons.\<close>

definition lottery_validate :: "lottery_state \<Rightarrow> bool" where
  "lottery_validate s =
     (list_all (\<lambda>e.
          \<not> (le_base_tickets (lot_entry_pool s e) < LOTTERY_MIN_TICKETS
             \<or> le_base_tickets (lot_entry_pool s e) > LOTTERY_MAX_TICKETS)
          \<and> le_current_tickets (lot_entry_pool s e)
              = le_base_tickets (lot_entry_pool s e) + le_compensation (lot_entry_pool s e))
        (lot_lottery_pool s)
      \<and> fold (\<lambda>e acc. acc + le_current_tickets (lot_entry_pool s e)) (lot_lottery_pool s) 0
          = lot_total_tickets s
      \<and> fold (\<lambda>e acc. acc + 1) (lot_lottery_pool s) 0 = lot_participant_count s)"




definition running_sum :: "lottery_state \<Rightarrow> nat \<Rightarrow> u32" where
  "running_sum s k =
     sum_list (map (\<lambda>e. le_current_tickets (lot_entry_pool s e))
                   (take k (lot_lottery_pool s)))"


section \<open>Round-robin scheduler (round\_robin.h, round\_robin.c)\<close>

definition RR_MIN_QUANTUM :: u32 where "RR_MIN_QUANTUM = 1"
definition RR_MAX_QUANTUM :: u32 where "RR_MAX_QUANTUM = 100"

record rr_node =
  rn_pid :: pid32
  rn_time_remaining :: u32
  rn_total_time :: u64
  rn_rounds :: u32

record rr_state =
  rr_node_pool :: "nat \<Rightarrow> rr_node"
  rr_free_nodes :: "nat list"
  rr_queue :: "nat list"
  rr_current :: "nat option"
  rr_queue_count :: u32
  rr_quantum :: u32
  rr_quantum_remaining :: u32
  rr_stats_total_processes :: u32
  rr_stats_total_context_switches :: u64
  rr_stats_total_quantum_expires :: u64
  rr_stats_avg_wait_time :: u32
  rr_stats_current_queue_length :: u32
  rr_stats_max_queue_length :: u32







definition round_robin_shutdown :: "rr_state \<Rightarrow> rr_state" where
  "round_robin_shutdown s = s\<lparr>rr_queue := [], rr_current := None, rr_queue_count := 0\<rparr>"





section \<open>Priority scheduler with aging (priority.h, priority.c)\<close>

text \<open>
  The macros \<open>PRIO_AGING_ENABLED\<close>, \<open>PRIO_AGING_INTERVAL\<close>, \<open>PRIO_AGING_AMOUNT\<close>,
  \<open>PRIO_STARVATION_THRESHOLD\<close> and \<open>PRIO_STARVATION_BOOST\<close> are used by priority.c but
  defined in no source file: they are the fields of the parameter \<open>cfg\<close>.
\<close>

record prio_config =
  PRIO_AGING_ENABLED :: bool
  PRIO_AGING_INTERVAL :: u32
  PRIO_AGING_AMOUNT :: u32
  PRIO_STARVATION_THRESHOLD :: u64
  PRIO_STARVATION_BOOST :: u32

record prio_node =
  pn_pid :: pid32
  pn_base_priority :: u32
  pn_current_priority :: u32
  pn_wait_time :: u64
  pn_last_run :: u64
  pn_cpu_burst :: u32
  pn_io_bound :: bool

record prio_state =
  prio_node_pool :: "nat \<Rightarrow> prio_node"
  prio_free_nodes :: "nat list"
  prio_queue :: "nat list"
  prio_queue_count :: u32
  aging_enabled :: bool
  aging_interval :: u32
  aging_counter :: u32
  prio_ticks :: u64
  prio_stats_total_schedules :: u64
  prio_stats_context_switches :: u64
  prio_stats_priority_changes :: u32
  prio_stats_aging_boosts :: u32
  prio_stats_starvation_boosts :: u32
  prio_stats_preemptions :: u32
  prio_stats_current_queue_length :: u32
  prio_stats_avg_wait_time :: u32

definition prio_boot :: "prio_config \<Rightarrow> prio_state" where
  "prio_boot cfg = \<lparr>prio_node_pool = (\<lambda>_. \<lparr>pn_pid = 0, pn_base_priority = 0,
        pn_current_priority = 0, pn_wait_time = 0, pn_last_run = 0, pn_cpu_burst = 0,
        pn_io_bound = False\<rparr>),
     prio_free_nodes = [], prio_queue = [], prio_queue_count = 0,
     aging_enabled = PRIO_AGING_ENABLED cfg, aging_interval = PRIO_AGING_INTERVAL cfg,
     aging_counter = 0, prio_ticks = 0,
     prio_stats_total_schedules = 0, prio_stats_context_switches = 0,
     prio_stats_priority_changes = 0, prio_stats_aging_boosts = 0,
     prio_stats_starvation_boosts = 0, prio_stats_preemptions = 0,
     prio_stats_current_queue_length = 0, prio_stats_avg_wait_time = 0\<rparr>"

definition prio_pool_init :: "nat \<Rightarrow> prio_state \<Rightarrow> prio_state" where
  "prio_pool_init nproc s =
     s\<lparr>prio_free_nodes := [0 ..< nproc],
       prio_node_pool := (\<lambda>i. if i < nproc - 1 then (prio_node_pool s i)\<lparr>pn_pid := -1\<rparr>
                               else prio_node_pool s i)\<rparr>"

definition prio_node_alloc :: "prio_state \<Rightarrow> (nat \<times> prio_state) option" where
  "prio_node_alloc s =
     (case prio_free_nodes s of
        [] \<Rightarrow> None
      | n # rest \<Rightarrow>
          Some (n, s\<lparr>prio_free_nodes := rest,
                     prio_node_pool := (prio_node_pool s)
                       (n := \<lparr>pn_pid = -1, pn_base_priority = PRIORITY_DEFAULT,
                              pn_current_priority = PRIORITY_DEFAULT, pn_wait_time = 0,
                              pn_last_run = 0, pn_cpu_burst = 0, pn_io_bound = False\<rparr>)\<rparr>))"

definition prio_node_free :: "nat \<Rightarrow> prio_state \<Rightarrow> prio_state" where
  "prio_node_free n s = s\<lparr>prio_free_nodes := n # prio_free_nodes s\<rparr>"

definition prio_find_node :: "prio_state \<Rightarrow> pid32 \<Rightarrow> nat option" where
  "prio_find_node s p = find (\<lambda>n. pn_pid (prio_node_pool s n) = p) (prio_queue s)"

definition priority_init :: "prio_config \<Rightarrow> nat \<Rightarrow> prio_state \<Rightarrow> prio_state" where
  "priority_init cfg nproc s =
     (prio_pool_init nproc s)
       \<lparr>prio_queue := [], prio_queue_count := 0,
        aging_enabled := PRIO_AGING_ENABLED cfg, aging_interval := PRIO_AGING_INTERVAL cfg,
        aging_counter := 0,
        prio_stats_total_schedules := 0, prio_stats_context_switches := 0,
        prio_stats_priority_changes := 0, prio_stats_aging_boosts := 0,
        prio_stats_starvation_boosts := 0, prio_stats_preemptions := 0,
        prio_stats_current_queue_length := 0, prio_stats_avg_wait_time := 0,
        prio_ticks := 0\<rparr>"

definition priority_shutdown :: "prio_state \<Rightarrow> prio_state" where
  "priority_shutdown s = s\<lparr>prio_queue := [], prio_queue_count := 0\<rparr>"

text \<open>The walk of \<open>priority_insert_ordered\<close>: skip every node of priority at least the new one's.\<close>

fun prio_insert :: "(nat \<Rightarrow> prio_node) \<Rightarrow> nat \<Rightarrow> u32 \<Rightarrow> nat list \<Rightarrow> nat list" where
  "prio_insert pool n priority [] = [n]"
| "prio_insert pool n priority (c # cs) =
     (if pn_current_priority (pool c) \<ge> priority
      then c # prio_insert pool n priority cs
      else n # c # cs)"

definition priority_insert_ordered :: "kernel_env \<Rightarrow> pid32 \<Rightarrow> prio_state \<Rightarrow> prio_state" where
  "priority_insert_ordered env p s =
     (case prio_node_alloc s of
        None \<Rightarrow> s
      | Some (n, s1) \<Rightarrow>
          (let node = (prio_node_pool s1 n)
                 \<lparr>pn_pid := p, pn_base_priority := proctab_pprio env p,
                  pn_current_priority := proctab_pprio env p, pn_wait_time := 0,
                  pn_last_run := prio_ticks s1\<rparr>;
               pool = (prio_node_pool s1)(n := node);
               cnt = prio_queue_count s1 + 1
           in s1\<lparr>prio_node_pool := pool,
                 prio_queue := prio_insert pool n (pn_current_priority node) (prio_queue s1),
                 prio_queue_count := cnt,
                 prio_stats_current_queue_length := cnt\<rparr>))"

definition priority_enqueue :: "nat \<Rightarrow> kernel_env \<Rightarrow> pid32 \<Rightarrow> prio_state \<Rightarrow> prio_state" where
  "priority_enqueue nproc env p s =
     (if p < 0 \<or> p \<ge> int nproc then s
      else if prio_find_node s p \<noteq> None then s
      else priority_insert_ordered env p s)"

definition priority_dequeue :: "nat \<Rightarrow> pid32 \<Rightarrow> prio_state \<Rightarrow> prio_state" where
  "priority_dequeue nproc p s =
     (if p < 0 \<or> p \<ge> int nproc then s
      else case prio_find_node s p of
             None \<Rightarrow> s
           | Some n \<Rightarrow>
               (let cnt = prio_queue_count s - 1
                in prio_node_free n
                     (s\<lparr>prio_queue := remove1 n (prio_queue s),
                        prio_queue_count := cnt,
                        prio_stats_current_queue_length := cnt\<rparr>)))"

definition priority_pick_next :: "prio_state \<Rightarrow> pid32" where
  "priority_pick_next s =
     (case prio_queue s of [] \<Rightarrow> -1 | n # _ \<Rightarrow> pn_pid (prio_node_pool s n))"

definition priority_schedule ::
  "nat \<Rightarrow> kernel_env \<times> prio_state \<Rightarrow> kernel_env \<times> prio_state" where
  "priority_schedule nproc es =
     (let env = fst es;
          s = (snd es)\<lparr>prio_stats_total_schedules :=
                         prio_stats_total_schedules (snd es) + 1\<rparr>;
          next_pid = priority_pick_next s
      in if next_pid < 0 then (env, s)
         else if next_pid \<noteq> currpid env
         then (let old_pid = currpid env;
                   env1 = (if proctab_pstate env old_pid = PR_CURR
                           then env\<lparr>proctab_pstate := (proctab_pstate env)(old_pid := PR_READY)\<rparr>
                           else env);
                   env2 = env1\<lparr>proctab_pstate := (proctab_pstate env1)(next_pid := PR_CURR),
                               currpid := next_pid\<rparr>;
                   s1 = (case prio_find_node s next_pid of
                           None \<Rightarrow> s
                         | Some n \<Rightarrow>
                             s\<lparr>prio_stats_avg_wait_time :=
                                  ucast ((ucast (prio_stats_avg_wait_time s)
                                          + pn_wait_time (prio_node_pool s n)) div (2 :: u64)),
                               prio_node_pool := (prio_node_pool s)
                                 (n := (prio_node_pool s n)
                                    \<lparr>pn_wait_time := 0, pn_last_run := prio_ticks s\<rparr>)\<rparr>);
                   s2 = priority_dequeue nproc next_pid s1;
                   s3 = s2\<lparr>prio_stats_context_switches := prio_stats_context_switches s2 + 1\<rparr>
               in (env2\<lparr>context_switch_calls :=
                          context_switch_calls env2 @ [(old_pid, next_pid)]\<rparr>, s3))
         else (env, s))"

definition priority_yield ::
  "nat \<Rightarrow> kernel_env \<times> prio_state \<Rightarrow> kernel_env \<times> prio_state" where
  "priority_yield nproc es =
     (let env = fst es; s = snd es
      in if proctab_pstate env (currpid env) = PR_CURR
         then (let env1 = env\<lparr>proctab_pstate :=
                                (proctab_pstate env)(currpid env := PR_READY)\<rparr>
               in priority_schedule nproc
                    (env1, priority_enqueue nproc env1 (currpid env1) s))
         else priority_schedule nproc (env, s))"

definition priority_preempt ::
  "nat \<Rightarrow> kernel_env \<times> prio_state \<Rightarrow> kernel_env \<times> prio_state" where
  "priority_preempt nproc es =
     priority_yield nproc
       (fst es, (snd es)\<lparr>prio_stats_preemptions := prio_stats_preemptions (snd es) + 1\<rparr>)"

definition priority_set ::
  "nat \<Rightarrow> pid32 \<Rightarrow> u32 \<Rightarrow> kernel_env \<times> prio_state \<Rightarrow> kernel_env \<times> prio_state" where
  "priority_set nproc p priority es =
     (let env = fst es; s = snd es
      in if p < 0 \<or> p \<ge> int nproc then (env, s)
         else (let priority = (if priority > PRIORITY_MAX then PRIORITY_MAX else priority);
                   env1 = env\<lparr>proctab_pprio := (proctab_pprio env)(p := priority)\<rparr>;
                   s1 = (case prio_find_node s p of
                           None \<Rightarrow> s
                         | Some n \<Rightarrow>
                             (let s' = s\<lparr>prio_node_pool := (prio_node_pool s)
                                          (n := (prio_node_pool s n)
                                             \<lparr>pn_base_priority := priority,
                                              pn_current_priority := priority\<rparr>)\<rparr>
                              in if n \<in> set (prio_queue s')
                                 then priority_insert_ordered env1 p
                                        (prio_node_free n
                                           (s'\<lparr>prio_queue := remove1 n (prio_queue s'),
                                               prio_queue_count := prio_queue_count s' - 1\<rparr>))
                                 else s'));
                   s2 = s1\<lparr>prio_stats_priority_changes := prio_stats_priority_changes s1 + 1\<rparr>
               in if proctab_pstate env1 p = PR_READY \<or> p = currpid env1
                  then (env1\<lparr>need_resched := True\<rparr>, s2)
                  else (env1, s2)))"

definition priority_age_all :: "prio_config \<Rightarrow> prio_state \<Rightarrow> prio_state" where
  "priority_age_all cfg s =
     (if \<not> aging_enabled s then s
      else fold (\<lambda>n st.
                   let node = prio_node_pool st n
                   in if pn_current_priority node < PRIORITY_MAX
                      then (let c = pn_current_priority node + PRIO_AGING_AMOUNT cfg;
                                c = (if c > PRIORITY_MAX then PRIORITY_MAX else c)
                            in st\<lparr>prio_node_pool := (prio_node_pool st)
                                    (n := node\<lparr>pn_current_priority := c\<rparr>),
                                  prio_stats_aging_boosts := prio_stats_aging_boosts st + 1\<rparr>)
                      else st)
                (prio_queue s) s)"

definition priority_check_starvation :: "prio_config \<Rightarrow> prio_state \<Rightarrow> prio_state" where
  "priority_check_starvation cfg s =
     fold (\<lambda>n st.
             let node = prio_node_pool st n
             in if pn_wait_time node > PRIO_STARVATION_THRESHOLD cfg
                then (let c = pn_current_priority node + PRIO_STARVATION_BOOST cfg;
                          c = (if c > PRIORITY_MAX then PRIORITY_MAX else c)
                      in st\<lparr>prio_node_pool := (prio_node_pool st)
                              (n := node\<lparr>pn_current_priority := c, pn_wait_time := 0\<rparr>),
                            prio_stats_starvation_boosts :=
                              prio_stats_starvation_boosts st + 1\<rparr>)
                else st)
          (prio_queue s) s"

definition priority_aging_enable :: "bool \<Rightarrow> prio_state \<Rightarrow> prio_state" where
  "priority_aging_enable enable s = s\<lparr>aging_enabled := enable\<rparr>"

definition priority_tick ::
  "prio_config \<Rightarrow> kernel_env \<times> prio_state \<Rightarrow> kernel_env \<times> prio_state" where
  "priority_tick cfg es =
     (let env = fst es;
          s0 = (snd es)\<lparr>prio_ticks := prio_ticks (snd es) + 1\<rparr>;
          s1 = fold (\<lambda>n st. st\<lparr>prio_node_pool := (prio_node_pool st)
                               (n := (prio_node_pool st n)
                                  \<lparr>pn_wait_time := pn_wait_time (prio_node_pool st n) + 1\<rparr>)\<rparr>)
                    (prio_queue s0) s0;
          s2 = (if aging_enabled s1
                then (let s' = s1\<lparr>aging_counter := aging_counter s1 + 1\<rparr>
                      in if aging_counter s' \<ge> aging_interval s'
                         then (priority_age_all cfg s')\<lparr>aging_counter := 0\<rparr>
                         else s')
                else s1);
          s3 = priority_check_starvation cfg s2
      in case prio_queue s3 of
           [] \<Rightarrow> (env, s3)
         | top_node # _ \<Rightarrow>
             if currpid env \<ge> 0
                \<and> proctab_pprio env (pn_pid (prio_node_pool s3 top_node))
                    > proctab_pprio env (currpid env)
             then (env\<lparr>need_resched := True\<rparr>, s3)
             else (env, s3))"

text \<open>
  The order check of \<open>priority_validate\<close>: no node has a higher \<open>current_priority\<close> than
  the node before it.
\<close>

fun prio_ordered :: "(nat \<Rightarrow> prio_node) \<Rightarrow> nat list \<Rightarrow> bool" where
  "prio_ordered pool [] = True"
| "prio_ordered pool [a] = True"
| "prio_ordered pool (a # b # rest) =
     (\<not> pn_current_priority (pool b) > pn_current_priority (pool a)
      \<and> prio_ordered pool (b # rest))"

definition priority_validate :: "nat \<Rightarrow> prio_state \<Rightarrow> bool" where
  "priority_validate nproc s =
     (list_all (\<lambda>n. \<not> (pn_pid (prio_node_pool s n) < 0
                        \<or> pn_pid (prio_node_pool s n) \<ge> int nproc)) (prio_queue s)
      \<and> prio_ordered (prio_node_pool s) (prio_queue s)
      \<and> \<not> length (prio_queue s) > nproc
      \<and> (of_nat (length (prio_queue s)) :: u32) = prio_queue_count s)"

text \<open>A configuration and an environment to run the scheduler on: pid 1 has priority 0, pid 2 priority 1.\<close>

definition prio_example_config :: prio_config where
  "prio_example_config = \<lparr>PRIO_AGING_ENABLED = True, PRIO_AGING_INTERVAL = 100,
     PRIO_AGING_AMOUNT = 1, PRIO_STARVATION_THRESHOLD = 3, PRIO_STARVATION_BOOST = 10\<rparr>"

definition prio_example_env :: kernel_env where
  "prio_example_env = \<lparr>proctab_pprio = (\<lambda>p. if p = 2 then 1 else 0),
     proctab_pstate = (\<lambda>p. if p = 0 then PR_CURR else PR_READY),
     currpid = 0, need_resched = False, context_switch_calls = []\<rparr>"


section \<open>Multi-level feedback queue (multilevel\_queue.h, multilevel\_queue.c)\<close>

definition MLFQ_NUM_LEVELS :: nat where "MLFQ_NUM_LEVELS = 8"


record mlfq_node =
  mn_pid :: pid32
  mn_level :: u32
  mn_time_allotment :: u32
  mn_time_used :: u32
  mn_arrival_time :: u64
  mn_io_count :: u32

text \<open>
  The arrays of eight elements (\<open>mlfq_queues\<close>, \<open>level_quantums\<close>, \<open>level_allotments\<close>,
  the per-level statistics) are functions of the level. \<open>mlfq_queue_nodes l\<close> is the chain of
  level \<open>l\<close> from \<open>mlfq_queues[l].head\<close>. The level stored in a node is below 8 on every
  path of the code (\<open>mlfq_add_to_level\<close> clamps it); an index that is read from an
  uninitialised variable is checked, and an access outside the array is the value \<open>None\<close>.
\<close>

record mlfq_state =
  mlfq_node_pool :: "nat \<Rightarrow> mlfq_node"
  mlfq_free_nodes :: "nat list"
  mlfq_queue_nodes :: "nat \<Rightarrow> nat list"
  mlfq_queue_count :: "nat \<Rightarrow> u32"
  mlfq_queue_quantum :: "nat \<Rightarrow> u32"
  mlfq_queue_allotment :: "nat \<Rightarrow> u32"
  level_quantums :: "nat \<Rightarrow> u32"
  level_allotments :: "nat \<Rightarrow> u32"
  boost_enabled :: bool
  boost_interval :: u32
  boost_counter :: u32
  io_bonus_enabled :: bool
  current_node :: "nat option"
  current_time_used :: u32
  mlfq_ticks :: u64
  mlfq_stats_total_schedules :: u64
  mlfq_stats_context_switches :: u64
  mlfq_stats_promotions :: u32
  mlfq_stats_demotions :: u32
  mlfq_stats_priority_boosts :: u32
  mlfq_stats_io_bonuses :: u32
  mlfq_stats_per_level_count :: "nat \<Rightarrow> u32"
  mlfq_stats_per_level_time :: "nat \<Rightarrow> u64"




definition mlfq_node_free :: "nat \<Rightarrow> mlfq_state \<Rightarrow> mlfq_state" where
  "mlfq_node_free n s = s\<lparr>mlfq_free_nodes := n # mlfq_free_nodes s\<rparr>"

text \<open>
  \<open>mlfq_find_node(pid, out_level)\<close> searches the levels from 0 to 7. Its body for
  \<open>out_level != NULL\<close> is empty: the caller's variable is never written.
\<close>

definition mlfq_find_node :: "mlfq_state \<Rightarrow> pid32 \<Rightarrow> nat option" where
  "mlfq_find_node s p =
     find (\<lambda>n. mn_pid (mlfq_node_pool s n) = p)
          (concat (map (mlfq_queue_nodes s) [0 ..< MLFQ_NUM_LEVELS]))"


definition mlfq_remove_from_queue :: "nat \<Rightarrow> mlfq_state \<Rightarrow> mlfq_state" where
  "mlfq_remove_from_queue n s =
     (let l = unat (mn_level (mlfq_node_pool s n))
      in s\<lparr>mlfq_queue_nodes := (mlfq_queue_nodes s)(l := remove1 n (mlfq_queue_nodes s l)),
            mlfq_queue_count := (mlfq_queue_count s)(l := mlfq_queue_count s l - 1),
            mlfq_stats_per_level_count :=
              (mlfq_stats_per_level_count s)(l := mlfq_stats_per_level_count s l - 1)\<rparr>)"


definition mlfq_shutdown :: "mlfq_state \<Rightarrow> mlfq_state" where
  "mlfq_shutdown s =
     s\<lparr>mlfq_queue_nodes := (\<lambda>l. if l < MLFQ_NUM_LEVELS then [] else mlfq_queue_nodes s l),
       mlfq_queue_count := (\<lambda>l. if l < MLFQ_NUM_LEVELS then 0 else mlfq_queue_count s l),
       current_node := None\<rparr>"


definition mlfq_dequeue :: "nat \<Rightarrow> pid32 \<Rightarrow> mlfq_state \<Rightarrow> mlfq_state" where
  "mlfq_dequeue nproc p s =
     (if p < 0 \<or> p \<ge> int nproc then s
      else case mlfq_find_node s p of
             None \<Rightarrow> s
           | Some n \<Rightarrow>
               (let s1 = (if current_node s = Some n then s\<lparr>current_node := None\<rparr> else s)
                in mlfq_node_free n (mlfq_remove_from_queue n s1)))"






















section \<open>Real-time scheduling (realtime.h, realtime.c)\<close>

definition RT_MAX_TASKS :: nat where "RT_MAX_TASKS = 64"

datatype rt_algorithm = RT_ALGO_EDF | RT_ALGO_RMS | RT_ALGO_DMS | RT_ALGO_LLF

datatype rt_miss_policy = RT_MISS_SKIP | RT_MISS_CONTINUE | RT_MISS_ABORT | RT_MISS_NOTIFY

datatype rt_task_state = RT_STATE_INACTIVE | RT_STATE_READY | RT_STATE_RUNNING
  | RT_STATE_BLOCKED | RT_STATE_COMPLETED | RT_STATE_MISSED

record rt_task_params =
  rp_period :: u32
  rp_deadline :: u32
  rp_wcet :: u32
  rp_phase :: u32
  rp_miss_policy :: rt_miss_policy

definition RT_DEFAULT_PARAMS :: rt_task_params where
  "RT_DEFAULT_PARAMS = \<lparr>rp_period = 100, rp_deadline = 100, rp_wcet = 10, rp_phase = 0,
     rp_miss_policy = RT_MISS_NOTIFY\<rparr>"

text \<open>
  \<open>realtime.c\<close> threads two lists through the one field \<open>next\<close> of a task: the list
  \<open>all_tasks\<close> and the \<open>ready_queue\<close>. The chain model of the other policies cannot
  express that, so the tasks are a store here: \<open>rt_task_pool\<close> maps the index of a pool slot
  to the task, a pointer is the index of a slot or \<open>None\<close> for \<open>NULL\<close>, and \<open>rt_next\<close> is the
  field \<open>next\<close>. \<open>rt_laxity\<close> is the \<open>int64_t\<close> in two's complement; it is compared through
  \<open>sint\<close>.
\<close>

record rt_task =
  rt_pid :: pid32
  rt_params :: rt_task_params
  rt_state :: rt_task_state
  rt_release_time :: u64
  rt_absolute_deadline :: u64
  rt_remaining_time :: u64
  rt_start_time :: u64
  rt_instances :: u64
  rt_completions :: u64
  rt_deadline_misses :: u64
  rt_total_response_time :: u64
  rt_worst_response_time :: u64
  rt_total_exec_time :: u64
  rt_rms_priority :: u32
  rt_laxity :: u64
  rt_next :: "nat option"

text \<open>
  \<open>rt_stats_utilization\<close> is the exact sum that \<open>realtime_calc_utilization\<close> computes in
  \<open>double\<close>; \<open>rt_context_switch_calls\<close> records the calls of \<open>context_switch\<close>.
\<close>

record rt_sched =
  rt_task_pool :: "nat \<Rightarrow> rt_task"
  rt_free_tasks :: "nat option"
  rt_ready_queue :: "nat option"
  rt_current_task :: "nat option"
  rt_task_count :: u32
  rt_current_algo :: rt_algorithm
  rt_system_time :: u64
  rt_all_tasks :: "nat option"
  rt_stats_total_releases :: u64
  rt_stats_total_completions :: u64
  rt_stats_total_deadline_misses :: u64
  rt_stats_preemptions :: u64
  rt_stats_context_switches :: u64
  rt_stats_utilization :: rat
  rt_context_switch_calls :: "(pid32 \<times> pid32) list"

definition rt_zero_task :: rt_task where
  "rt_zero_task = \<lparr>rt_pid = 0,
     rt_params = \<lparr>rp_period = 0, rp_deadline = 0, rp_wcet = 0, rp_phase = 0,
                   rp_miss_policy = RT_MISS_SKIP\<rparr>,
     rt_state = RT_STATE_INACTIVE, rt_release_time = 0, rt_absolute_deadline = 0,
     rt_remaining_time = 0, rt_start_time = 0, rt_instances = 0, rt_completions = 0,
     rt_deadline_misses = 0, rt_total_response_time = 0, rt_worst_response_time = 0,
     rt_total_exec_time = 0, rt_rms_priority = 0, rt_laxity = 0, rt_next = None\<rparr>"

definition rt_boot :: rt_sched where
  "rt_boot = \<lparr>rt_task_pool = (\<lambda>_. rt_zero_task), rt_free_tasks = None,
     rt_ready_queue = None, rt_current_task = None, rt_task_count = 0,
     rt_current_algo = RT_ALGO_EDF, rt_system_time = 0, rt_all_tasks = None,
     rt_stats_total_releases = 0, rt_stats_total_completions = 0,
     rt_stats_total_deadline_misses = 0, rt_stats_preemptions = 0,
     rt_stats_context_switches = 0, rt_stats_utilization = 0,
     rt_context_switch_calls = []\<rparr>"

definition set_next :: "(nat \<Rightarrow> rt_task) \<Rightarrow> nat \<Rightarrow> nat option \<Rightarrow> nat \<Rightarrow> rt_task" where
  "set_next pool t v = pool(t := (pool t)\<lparr>rt_next := v\<rparr>)"

text \<open>
  A list that shares its links with another one can be circular, and then a loop of the code
  that walks it does not end. Every loop is a recursion on a counter: a function takes
  \<open>fuel\<close>, the number of times that a loop in it may test its condition, and returns
  \<open>None\<close> when a loop needs more. The theorems hold for every \<open>fuel\<close>.
\<close>

definition alloc_task :: "rt_sched \<Rightarrow> (nat \<times> rt_sched) option" where
  "alloc_task s =
     (case rt_free_tasks s of
        None \<Rightarrow> None
      | Some t \<Rightarrow> Some (t, s\<lparr>rt_free_tasks := rt_next (rt_task_pool s t),
                               rt_task_pool := (rt_task_pool s)(t := rt_zero_task)\<rparr>))"

definition free_task :: "nat \<Rightarrow> rt_sched \<Rightarrow> rt_sched" where
  "free_task t s = s\<lparr>rt_task_pool := set_next (rt_task_pool s) t (rt_free_tasks s),
                      rt_free_tasks := Some t\<rparr>"

fun find_task_from :: "nat \<Rightarrow> (nat \<Rightarrow> rt_task) \<Rightarrow> nat option \<Rightarrow> pid32 \<Rightarrow> nat option option" where
  "find_task_from 0 pool t p = None"
| "find_task_from (Suc n) pool t p =
     (case t of
        None \<Rightarrow> Some None
      | Some i \<Rightarrow> if rt_pid (pool i) = p then Some (Some i)
                  else find_task_from n pool (rt_next (pool i)) p)"

definition find_task :: "nat \<Rightarrow> rt_sched \<Rightarrow> pid32 \<Rightarrow> nat option option" where
  "find_task fuel s p = find_task_from fuel (rt_task_pool s) (rt_all_tasks s) p"

definition insert_here :: "rt_algorithm \<Rightarrow> rt_task \<Rightarrow> rt_task \<Rightarrow> bool" where
  "insert_here algo task other =
     (case algo of
        RT_ALGO_EDF \<Rightarrow> rt_absolute_deadline task < rt_absolute_deadline other
      | RT_ALGO_RMS \<Rightarrow> rt_rms_priority task > rt_rms_priority other
      | RT_ALGO_DMS \<Rightarrow> rt_rms_priority task > rt_rms_priority other
      | RT_ALGO_LLF \<Rightarrow> sint (rt_laxity task) < sint (rt_laxity other))"

text \<open>The scan of \<open>insert_ready\<close>; the result is \<open>prev\<close> when the loop is left.\<close>

fun insert_scan ::
  "nat \<Rightarrow> rt_algorithm \<Rightarrow> (nat \<Rightarrow> rt_task) \<Rightarrow> nat \<Rightarrow> nat option \<Rightarrow> nat option
     \<Rightarrow> nat option option" where
  "insert_scan 0 algo pool task prev cur = None"
| "insert_scan (Suc n) algo pool task prev cur =
     (case cur of
        None \<Rightarrow> Some prev
      | Some c \<Rightarrow> if insert_here algo (pool task) (pool c) then Some prev
                  else insert_scan n algo pool task (Some c) (rt_next (pool c)))"

text \<open>
  \<open>insert_ready\<close>, \<open>remove_ready\<close>, \<open>realtime_release\<close> and \<open>realtime_handle_miss\<close> are
  called with a task that is not \<open>NULL\<close>; their argument is the index of the task.
\<close>

definition insert_ready :: "nat \<Rightarrow> nat \<Rightarrow> rt_sched \<Rightarrow> rt_sched option" where
  "insert_ready fuel task s =
     (let pool1 = (rt_task_pool s)(task := (rt_task_pool s task)\<lparr>rt_state := RT_STATE_READY\<rparr>)
      in case rt_ready_queue s of
           None \<Rightarrow> Some (s\<lparr>rt_task_pool := set_next pool1 task None,
                             rt_ready_queue := Some task\<rparr>)
         | Some h \<Rightarrow>
             (case insert_scan fuel (rt_current_algo s) pool1 task None (Some h) of
                None \<Rightarrow> None
              | Some None \<Rightarrow> Some (s\<lparr>rt_task_pool := set_next pool1 task (Some h),
                                       rt_ready_queue := Some task\<rparr>)
              | Some (Some pv) \<Rightarrow>
                  (let pool2 = set_next pool1 task (rt_next (pool1 pv));
                       pool3 = set_next pool2 pv (Some task)
                   in Some (s\<lparr>rt_task_pool := pool3\<rparr>))))"

text \<open>The scan of \<open>remove_ready\<close>; the result is \<open>prev\<close> when the loop is left.\<close>

fun remove_scan :: "nat \<Rightarrow> (nat \<Rightarrow> rt_task) \<Rightarrow> nat \<Rightarrow> nat \<Rightarrow> nat option" where
  "remove_scan 0 pool task prev = None"
| "remove_scan (Suc n) pool task prev =
     (case rt_next (pool prev) of
        None \<Rightarrow> Some prev
      | Some nx \<Rightarrow> if nx = task then Some prev else remove_scan n pool task nx)"

definition remove_ready :: "nat \<Rightarrow> nat \<Rightarrow> rt_sched \<Rightarrow> rt_sched option" where
  "remove_ready fuel task s =
     (case rt_ready_queue s of
        None \<Rightarrow> Some s
      | Some h \<Rightarrow>
          if h = task
          then Some (s\<lparr>rt_ready_queue := rt_next (rt_task_pool s task),
                       rt_task_pool := set_next (rt_task_pool s) task None\<rparr>)
          else (case remove_scan fuel (rt_task_pool s) task h of
                  None \<Rightarrow> None
                | Some pv \<Rightarrow>
                    if rt_next (rt_task_pool s pv) = Some task
                    then (let pool1 = set_next (rt_task_pool s) pv
                                        (rt_next (rt_task_pool s task))
                          in Some (s\<lparr>rt_task_pool := set_next pool1 task None\<rparr>))
                    else Some s))"

definition realtime_init :: "rt_sched \<Rightarrow> rt_sched" where
  "realtime_init s =
     s\<lparr>rt_task_pool := (\<lambda>i. if i < RT_MAX_TASKS
                              then (rt_task_pool s i)
                                     \<lparr>rt_next := (if Suc i < RT_MAX_TASKS then Some (Suc i)
                                                   else None)\<rparr>
                              else rt_task_pool s i),
       rt_free_tasks := Some 0,
       rt_ready_queue := None, rt_all_tasks := None, rt_current_task := None,
       rt_task_count := 0, rt_system_time := 0, rt_current_algo := RT_ALGO_EDF,
       rt_stats_total_releases := 0, rt_stats_total_completions := 0,
       rt_stats_total_deadline_misses := 0, rt_stats_preemptions := 0,
       rt_stats_context_switches := 0, rt_stats_utilization := 0\<rparr>"

fun shutdown_from :: "nat \<Rightarrow> rt_sched \<Rightarrow> nat option \<Rightarrow> rt_sched option" where
  "shutdown_from 0 s t = None"
| "shutdown_from (Suc n) s t =
     (case t of
        None \<Rightarrow> Some s
      | Some i \<Rightarrow> shutdown_from n (free_task i s) (rt_next (rt_task_pool s i)))"

definition realtime_shutdown :: "nat \<Rightarrow> rt_sched \<Rightarrow> rt_sched option" where
  "realtime_shutdown fuel s =
     map_option (\<lambda>s1. s1\<lparr>rt_ready_queue := None, rt_all_tasks := None,
                          rt_current_task := None, rt_task_count := 0\<rparr>)
       (shutdown_from fuel s (rt_all_tasks s))"

text \<open>
  \<open>rms_assign_priorities\<close> and \<open>dms_assign_priorities\<close>: the tasks are collected into the
  array \<open>sorted\<close> (at most \<open>RT_MAX_TASKS\<close> of them), sorted by the bubble sort of the code on
  the period, respectively the relative deadline, and numbered from \<open>count\<close> down.
\<close>

fun collect_tasks :: "nat \<Rightarrow> (nat \<Rightarrow> rt_task) \<Rightarrow> nat option \<Rightarrow> nat list" where
  "collect_tasks 0 pool t = []"
| "collect_tasks (Suc n) pool t =
     (case t of None \<Rightarrow> [] | Some i \<Rightarrow> i # collect_tasks n pool (rt_next (pool i)))"

definition bubble_sort :: "(nat \<Rightarrow> u32) \<Rightarrow> nat list \<Rightarrow> nat list" where
  "bubble_sort key arr =
     (let count = length arr
      in fold (\<lambda>i xs. fold (\<lambda>j ys. if key (ys ! j) > key (ys ! (j + 1))
                                      then ys[j := ys ! (j + 1), j + 1 := ys ! j]
                                      else ys)
                            [0 ..< count - i - 1] xs)
              [0 ..< count - 1] arr)"

definition assign_priorities :: "(rt_task \<Rightarrow> u32) \<Rightarrow> rt_sched \<Rightarrow> rt_sched" where
  "assign_priorities key s =
     (let pool = rt_task_pool s;
          arr = bubble_sort (\<lambda>i. key (pool i))
                     (collect_tasks RT_MAX_TASKS pool (rt_all_tasks s));
          count = length arr
      in s\<lparr>rt_task_pool :=
             fold (\<lambda>i pl. pl(arr ! i := (pl (arr ! i))
                                    \<lparr>rt_rms_priority := of_nat (count - i)\<rparr>))
                  [0 ..< count] pool\<rparr>)"

definition rms_assign_priorities :: "rt_sched \<Rightarrow> rt_sched" where
  "rms_assign_priorities = assign_priorities (\<lambda>t. rp_period (rt_params t))"

definition dms_assign_priorities :: "rt_sched \<Rightarrow> rt_sched" where
  "dms_assign_priorities = assign_priorities (\<lambda>t. rp_deadline (rt_params t))"

fun llf_update_from ::
  "nat \<Rightarrow> u64 \<Rightarrow> (nat \<Rightarrow> rt_task) \<Rightarrow> nat option \<Rightarrow> (nat \<Rightarrow> rt_task) option" where
  "llf_update_from 0 now pool t = None"
| "llf_update_from (Suc n) now pool t =
     (case t of
        None \<Rightarrow> Some pool
      | Some i \<Rightarrow>
          (let pool1 = (if rt_state (pool i) = RT_STATE_READY
                           \<or> rt_state (pool i) = RT_STATE_RUNNING
                        then pool(i := (pool i)
                               \<lparr>rt_laxity := rt_absolute_deadline (pool i) - now
                                              - rt_remaining_time (pool i)\<rparr>)
                        else pool)
           in llf_update_from n now pool1 (rt_next (pool1 i))))"

definition llf_update_laxity :: "nat \<Rightarrow> rt_sched \<Rightarrow> rt_sched option" where
  "llf_update_laxity fuel s =
     map_option (\<lambda>pool. s\<lparr>rt_task_pool := pool\<rparr>)
       (llf_update_from fuel (rt_system_time s) (rt_task_pool s) (rt_all_tasks s))"

definition INT64_MAX :: int where "INT64_MAX = 2 ^ 63 - 1"

fun llf_min_from ::
  "nat \<Rightarrow> (nat \<Rightarrow> rt_task) \<Rightarrow> nat option \<Rightarrow> nat option \<Rightarrow> int \<Rightarrow> nat option option" where
  "llf_min_from 0 pool t min_task min_laxity = None"
| "llf_min_from (Suc n) pool t min_task min_laxity =
     (case t of
        None \<Rightarrow> Some min_task
      | Some i \<Rightarrow>
          if rt_state (pool i) = RT_STATE_READY \<and> sint (rt_laxity (pool i)) < min_laxity
          then llf_min_from n pool (rt_next (pool i)) (Some i) (sint (rt_laxity (pool i)))
          else llf_min_from n pool (rt_next (pool i)) min_task min_laxity)"

definition llf_pick_next :: "nat \<Rightarrow> rt_sched \<Rightarrow> (nat option \<times> rt_sched) option" where
  "llf_pick_next fuel s =
     Option.bind (llf_update_laxity fuel s) (\<lambda>s1.
       map_option (\<lambda>m. (m, s1))
         (llf_min_from fuel (rt_task_pool s1) (rt_ready_queue s1) None INT64_MAX))"

definition realtime_schedule :: "nat \<Rightarrow> rt_sched \<Rightarrow> rt_sched option" where
  "realtime_schedule fuel s =
     Option.bind (case rt_current_algo s of
                    RT_ALGO_LLF \<Rightarrow> llf_pick_next fuel s
                  | _ \<Rightarrow> Some (rt_ready_queue s, s)) (\<lambda>(nxt, s1).
       case nxt of
         None \<Rightarrow> Some (s1\<lparr>rt_current_task := None\<rparr>)
       | Some nx \<Rightarrow>
           Option.bind (remove_ready fuel nx s1) (\<lambda>s2.
             if rt_current_task s2 \<noteq> Some nx
             then (let old_pid = (case rt_current_task s2 of
                                    None \<Rightarrow> -1
                                  | Some c \<Rightarrow> rt_pid (rt_task_pool s2 c))
                   in Option.bind
                        (case rt_current_task s2 of
                           None \<Rightarrow> Some s2
                         | Some c \<Rightarrow>
                             if rt_state (rt_task_pool s2 c) = RT_STATE_RUNNING
                             then map_option
                                    (\<lambda>s'. s'\<lparr>rt_stats_preemptions :=
                                                rt_stats_preemptions s' + 1\<rparr>)
                                    (insert_ready fuel c
                                       (s2\<lparr>rt_task_pool := (rt_task_pool s2)
                                              (c := (rt_task_pool s2 c)
                                                 \<lparr>rt_state := RT_STATE_READY\<rparr>)\<rparr>))
                             else Some s2) (\<lambda>s3.
                        Some (s3\<lparr>rt_current_task := Some nx,
                                 rt_task_pool := (rt_task_pool s3)
                                   (nx := (rt_task_pool s3 nx)
                                      \<lparr>rt_state := RT_STATE_RUNNING,
                                       rt_start_time := rt_system_time s3\<rparr>),
                                 rt_stats_context_switches :=
                                   rt_stats_context_switches s3 + 1,
                                 rt_context_switch_calls :=
                                   rt_context_switch_calls s3
                                   @ [(old_pid, rt_pid (rt_task_pool s3 nx))]\<rparr>)))
             else Some s2))"

definition realtime_preempt :: "nat \<Rightarrow> rt_sched \<Rightarrow> rt_sched option" where
  "realtime_preempt fuel s = realtime_schedule fuel s"

definition realtime_yield :: "nat \<Rightarrow> rt_sched \<Rightarrow> rt_sched option" where
  "realtime_yield fuel s =
     Option.bind
       (case rt_current_task s of
          None \<Rightarrow> Some s
        | Some c \<Rightarrow>
            (let t = rt_task_pool s c;
                 elapsed = rt_system_time s - rt_start_time t;
                 t1 = (if elapsed < rt_remaining_time t
                       then t\<lparr>rt_remaining_time := rt_remaining_time t - elapsed\<rparr>
                       else t\<lparr>rt_remaining_time := 0\<rparr>);
                 s1 = s\<lparr>rt_task_pool := (rt_task_pool s)
                          (c := t1\<lparr>rt_state := RT_STATE_READY\<rparr>)\<rparr>
             in map_option (\<lambda>s2. s2\<lparr>rt_current_task := None\<rparr>) (insert_ready fuel c s1)))
       (realtime_schedule fuel)"

definition realtime_check_preempt :: "nat \<Rightarrow> rt_sched \<Rightarrow> (bool \<times> rt_sched) option" where
  "realtime_check_preempt fuel s =
     (case rt_current_task s of
        None \<Rightarrow> Some (rt_ready_queue s \<noteq> None, s)
      | Some c \<Rightarrow>
          (case rt_ready_queue s of
             None \<Rightarrow> Some (False, s)
           | Some h \<Rightarrow>
               (case rt_current_algo s of
                  RT_ALGO_EDF \<Rightarrow>
                    Some (rt_absolute_deadline (rt_task_pool s h)
                            < rt_absolute_deadline (rt_task_pool s c), s)
                | RT_ALGO_LLF \<Rightarrow>
                    map_option
                      (\<lambda>s1. (sint (rt_laxity (rt_task_pool s1 h))
                               < sint (rt_laxity (rt_task_pool s1 c)), s1))
                      (llf_update_laxity fuel s)
                | _ \<Rightarrow>
                    Some (rt_rms_priority (rt_task_pool s h)
                            > rt_rms_priority (rt_task_pool s c), s))))"

definition realtime_release :: "nat \<Rightarrow> nat \<Rightarrow> rt_sched \<Rightarrow> rt_sched option" where
  "realtime_release fuel task s =
     (let t = rt_task_pool s task;
          t1 = t\<lparr>rt_release_time := rt_system_time s,
                 rt_absolute_deadline := rt_system_time s + ucast (rp_deadline (rt_params t)),
                 rt_remaining_time := ucast (rp_wcet (rt_params t)),
                 rt_state := RT_STATE_READY,
                 rt_instances := rt_instances t + 1\<rparr>;
          t2 = (if rt_current_algo s = RT_ALGO_LLF
                then t1\<lparr>rt_laxity := ucast (rp_deadline (rt_params t))
                                       - ucast (rp_wcet (rt_params t))\<rparr>
                else t1)
      in Option.bind (insert_ready fuel task (s\<lparr>rt_task_pool := (rt_task_pool s)(task := t2)\<rparr>))
           (\<lambda>s1. Option.bind
                    (realtime_check_preempt fuel
                       (s1\<lparr>rt_stats_total_releases := rt_stats_total_releases s1 + 1\<rparr>))
                    (\<lambda>(p, s2). if p then realtime_schedule fuel s2 else Some s2)))"

fun utilization_from :: "nat \<Rightarrow> (nat \<Rightarrow> rt_task) \<Rightarrow> nat option \<Rightarrow> rat \<Rightarrow> rat option" where
  "utilization_from 0 pool t util = None"
| "utilization_from (Suc n) pool t util =
     (case t of
        None \<Rightarrow> Some util
      | Some i \<Rightarrow>
          utilization_from n pool (rt_next (pool i))
            (if rp_period (rt_params (pool i)) > 0
             then util + of_nat (unat (rp_wcet (rt_params (pool i))))
                          / of_nat (unat (rp_period (rt_params (pool i))))
             else util))"

definition realtime_calc_utilization :: "nat \<Rightarrow> rt_sched \<Rightarrow> (rat \<times> rt_sched) option" where
  "realtime_calc_utilization fuel s =
     map_option (\<lambda>util. (util, s\<lparr>rt_stats_utilization := util\<rparr>))
       (utilization_from fuel (rt_task_pool s) (rt_all_tasks s) 0)"

definition update_stats_completion :: "nat \<Rightarrow> rt_sched \<Rightarrow> rt_sched option" where
  "update_stats_completion fuel s = map_option snd (realtime_calc_utilization fuel s)"

definition realtime_complete :: "nat \<Rightarrow> pid32 \<Rightarrow> rt_sched \<Rightarrow> rt_sched option" where
  "realtime_complete fuel p s =
     Option.bind (find_task fuel s p) (\<lambda>found.
       case found of
         None \<Rightarrow> Some s
       | Some task \<Rightarrow>
           (let t = rt_task_pool s task;
                response_time = rt_system_time s - rt_release_time t;
                exec_time = ucast (rp_wcet (rt_params t)) - rt_remaining_time t;
                t1 = t\<lparr>rt_total_response_time := rt_total_response_time t + response_time,
                       rt_worst_response_time :=
                         (if response_time > rt_worst_response_time t then response_time
                          else rt_worst_response_time t),
                       rt_total_exec_time := rt_total_exec_time t + exec_time,
                       rt_state := RT_STATE_COMPLETED,
                       rt_completions := rt_completions t + 1\<rparr>;
                s1 = s\<lparr>rt_task_pool := (rt_task_pool s)(task := t1),
                       rt_stats_total_completions := rt_stats_total_completions s + 1\<rparr>
            in Option.bind (update_stats_completion fuel s1) (\<lambda>s2.
                 Option.bind
                   (remove_ready fuel task
                      (if rt_current_task s2 = Some task then s2\<lparr>rt_current_task := None\<rparr>
                       else s2))
                   (realtime_schedule fuel))))"

definition realtime_check_deadline :: "rt_sched \<Rightarrow> nat \<Rightarrow> bool" where
  "realtime_check_deadline s task =
     (rt_system_time s > rt_absolute_deadline (rt_task_pool s task))"

definition realtime_handle_miss :: "nat \<Rightarrow> nat \<Rightarrow> rt_sched \<Rightarrow> rt_sched option" where
  "realtime_handle_miss fuel task s =
     (let t = rt_task_pool s task;
          s1 = s\<lparr>rt_task_pool := (rt_task_pool s)
                   (task := t\<lparr>rt_state := RT_STATE_MISSED,
                              rt_deadline_misses := rt_deadline_misses t + 1\<rparr>),
                 rt_stats_total_deadline_misses := rt_stats_total_deadline_misses s + 1\<rparr>
      in case rp_miss_policy (rt_params t) of
           RT_MISS_SKIP \<Rightarrow> remove_ready fuel task s1
         | RT_MISS_CONTINUE \<Rightarrow> Some s1
         | RT_MISS_ABORT \<Rightarrow>
             map_option (\<lambda>s2. if rt_current_task s2 = Some task
                               then s2\<lparr>rt_current_task := None\<rparr> else s2)
               (remove_ready fuel task s1)
         | RT_MISS_NOTIFY \<Rightarrow> Some s1)"

fun check_deadlines_from :: "nat \<Rightarrow> nat \<Rightarrow> rt_sched \<Rightarrow> nat option \<Rightarrow> rt_sched option" where
  "check_deadlines_from fuel 0 s t = None"
| "check_deadlines_from fuel (Suc n) s t =
     (case t of
        None \<Rightarrow> Some s
      | Some i \<Rightarrow>
          Option.bind
            (if (rt_state (rt_task_pool s i) = RT_STATE_READY
                 \<or> rt_state (rt_task_pool s i) = RT_STATE_RUNNING)
                \<and> realtime_check_deadline s i
             then realtime_handle_miss fuel i s else Some s)
            (\<lambda>s1. check_deadlines_from fuel n s1 (rt_next (rt_task_pool s1 i))))"

definition realtime_check_deadlines :: "nat \<Rightarrow> rt_sched \<Rightarrow> rt_sched option" where
  "realtime_check_deadlines fuel s = check_deadlines_from fuel fuel s (rt_all_tasks s)"

fun check_releases_from :: "nat \<Rightarrow> nat \<Rightarrow> rt_sched \<Rightarrow> nat option \<Rightarrow> rt_sched option" where
  "check_releases_from fuel 0 s t = None"
| "check_releases_from fuel (Suc n) s t =
     (case t of
        None \<Rightarrow> Some s
      | Some i \<Rightarrow>
          Option.bind
            (if (rt_state (rt_task_pool s i) = RT_STATE_COMPLETED
                 \<or> rt_state (rt_task_pool s i) = RT_STATE_MISSED
                 \<or> rt_state (rt_task_pool s i) = RT_STATE_INACTIVE)
                \<and> rt_system_time s
                    \<ge> rt_release_time (rt_task_pool s i)
                       + ucast (rp_period (rt_params (rt_task_pool s i)))
             then realtime_release fuel i s else Some s)
            (\<lambda>s1. check_releases_from fuel n s1 (rt_next (rt_task_pool s1 i))))"

definition realtime_check_releases :: "nat \<Rightarrow> rt_sched \<Rightarrow> rt_sched option" where
  "realtime_check_releases fuel s = check_releases_from fuel fuel s (rt_all_tasks s)"

text \<open>
  The loop that empties the ready queue and inserts its tasks again, in \<open>realtime_tick\<close>
  (under LLF) and in \<open>realtime_set_algorithm\<close>.
\<close>

fun reinsert_from :: "nat \<Rightarrow> nat \<Rightarrow> rt_sched \<Rightarrow> nat option \<Rightarrow> rt_sched option" where
  "reinsert_from fuel 0 s old_queue = None"
| "reinsert_from fuel (Suc n) s old_queue =
     (case old_queue of
        None \<Rightarrow> Some s
      | Some task \<Rightarrow>
          Option.bind
            (insert_ready fuel task
               (s\<lparr>rt_task_pool := set_next (rt_task_pool s) task None\<rparr>))
            (\<lambda>s1. reinsert_from fuel n s1 (rt_next (rt_task_pool s task))))"

definition realtime_set_algorithm :: "nat \<Rightarrow> rt_algorithm \<Rightarrow> rt_sched \<Rightarrow> rt_sched option" where
  "realtime_set_algorithm fuel algo s =
     (if algo = rt_current_algo s then Some s
      else Option.bind
             (case algo of
                RT_ALGO_RMS \<Rightarrow> Some (rms_assign_priorities (s\<lparr>rt_current_algo := algo\<rparr>))
              | RT_ALGO_DMS \<Rightarrow> Some (dms_assign_priorities (s\<lparr>rt_current_algo := algo\<rparr>))
              | RT_ALGO_LLF \<Rightarrow> llf_update_laxity fuel (s\<lparr>rt_current_algo := algo\<rparr>)
              | RT_ALGO_EDF \<Rightarrow> Some (s\<lparr>rt_current_algo := algo\<rparr>))
             (\<lambda>s1. reinsert_from fuel fuel (s1\<lparr>rt_ready_queue := None\<rparr>) (rt_ready_queue s1)))"

definition realtime_tick :: "nat \<Rightarrow> rt_sched \<Rightarrow> rt_sched option" where
  "realtime_tick fuel s =
     (let s1 = s\<lparr>rt_system_time := rt_system_time s + 1\<rparr>
      in Option.bind
           (case rt_current_task s1 of
              None \<Rightarrow> Some s1
            | Some c \<Rightarrow>
                if rt_state (rt_task_pool s1 c) = RT_STATE_RUNNING
                then (let t = rt_task_pool s1 c;
                          t1 = (if rt_remaining_time t > 0
                                then t\<lparr>rt_remaining_time := rt_remaining_time t - 1\<rparr>
                                else t);
                          s2 = s1\<lparr>rt_task_pool := (rt_task_pool s1)(c := t1)\<rparr>
                      in if rt_remaining_time t1 = 0
                         then realtime_complete fuel (rt_pid t1) s2
                         else Some s2)
                else Some s1) (\<lambda>s3.
         Option.bind (realtime_check_deadlines fuel s3) (\<lambda>s4.
         Option.bind (realtime_check_releases fuel s4) (\<lambda>s5.
         Option.bind
           (if rt_current_algo s5 = RT_ALGO_LLF
            then Option.bind (llf_update_laxity fuel s5)
                   (\<lambda>s6. reinsert_from fuel fuel (s6\<lparr>rt_ready_queue := None\<rparr>)
                            (rt_ready_queue s6))
            else Some s5) (\<lambda>s7.
         Option.bind (realtime_check_preempt fuel s7)
           (\<lambda>(p, s8). if p then realtime_schedule fuel s8 else Some s8))))))"

definition realtime_create_task ::
  "nat \<Rightarrow> pid32 \<Rightarrow> rt_task_params option \<Rightarrow> rt_sched \<Rightarrow> (int \<times> rt_sched) option" where
  "realtime_create_task fuel p params s =
     (case params of
        None \<Rightarrow> Some (-1, s)
      | Some ps \<Rightarrow>
          Option.bind (find_task fuel s p) (\<lambda>found.
            if found \<noteq> None then Some (-1, s)
            else case alloc_task s of
                   None \<Rightarrow> Some (-1, s)
                 | Some (task, s1) \<Rightarrow>
                     (let t = (rt_task_pool s1 task)
                                \<lparr>rt_pid := p, rt_params := ps, rt_state := RT_STATE_INACTIVE,
                                 rt_remaining_time := ucast (rp_wcet ps),
                                 rt_next := rt_all_tasks s1\<rparr>;
                          s2 = s1\<lparr>rt_task_pool := (rt_task_pool s1)(task := t),
                                 rt_all_tasks := Some task,
                                 rt_task_count := rt_task_count s1 + 1\<rparr>
                      in case rt_current_algo s2 of
                           RT_ALGO_RMS \<Rightarrow> Some (0, rms_assign_priorities s2)
                         | RT_ALGO_DMS \<Rightarrow> Some (0, dms_assign_priorities s2)
                         | _ \<Rightarrow> Some (0, s2\<lparr>rt_task_pool := (rt_task_pool s2)
                                              (task := (rt_task_pool s2 task)
                                                 \<lparr>rt_rms_priority := 1\<rparr>)\<rparr>))))"

definition realtime_set_params ::
  "nat \<Rightarrow> pid32 \<Rightarrow> rt_task_params option \<Rightarrow> rt_sched \<Rightarrow> (int \<times> rt_sched) option" where
  "realtime_set_params fuel p params s =
     Option.bind (find_task fuel s p) (\<lambda>found.
       case (found, params) of
         (Some task, Some ps) \<Rightarrow>
           (let s1 = s\<lparr>rt_task_pool := (rt_task_pool s)
                          (task := (rt_task_pool s task)\<lparr>rt_params := ps\<rparr>)\<rparr>
            in Some (0, if rt_current_algo s1 = RT_ALGO_RMS then rms_assign_priorities s1
                        else if rt_current_algo s1 = RT_ALGO_DMS then dms_assign_priorities s1
                        else s1))
       | _ \<Rightarrow> Some (-1, s))"

definition realtime_enqueue :: "nat \<Rightarrow> pid32 \<Rightarrow> rt_sched \<Rightarrow> rt_sched option" where
  "realtime_enqueue fuel p s =
     Option.bind (find_task fuel s p) (\<lambda>found.
       Option.bind
         (case found of
            Some task \<Rightarrow> Some (found, s)
          | None \<Rightarrow>
              Option.bind (realtime_create_task fuel p (Some RT_DEFAULT_PARAMS) s) (\<lambda>(_, s1).
                map_option (\<lambda>f. (f, s1)) (find_task fuel s1 p)))
         (\<lambda>(found1, s2).
            case found1 of
              None \<Rightarrow> Some s2
            | Some task \<Rightarrow>
                if rt_state (rt_task_pool s2 task) \<noteq> RT_STATE_READY
                   \<and> rt_state (rt_task_pool s2 task) \<noteq> RT_STATE_RUNNING
                then realtime_release fuel task s2 else Some s2))"

text \<open>
  The invariant of the specification for a released task:
  \<open>absolute_deadline = release_time + deadline\<close> (in \<open>uint64_t\<close>) and
  \<open>remaining_time \<le> wcet\<close>.
\<close>

definition rt_invariant :: "rt_task \<Rightarrow> bool" where
  "rt_invariant t \<longleftrightarrow>
     rt_absolute_deadline t = rt_release_time t + ucast (rp_deadline (rt_params t))
     \<and> rt_remaining_time t \<le> ucast (rp_wcet (rt_params t))"

text \<open>The fields of a task that the invariant reads, for every slot of the pool.\<close>

definition rt_timing :: "rt_task \<Rightarrow> rt_task_params \<times> u64 \<times> u64 \<times> u64" where
  "rt_timing t = (rt_params t, rt_release_time t, rt_absolute_deadline t, rt_remaining_time t)"

definition rt_timings :: "rt_sched \<Rightarrow> nat \<Rightarrow> rt_task_params \<times> u64 \<times> u64 \<times> u64" where
  "rt_timings s = (\<lambda>i. rt_timing (rt_task_pool s i))"


section \<open>Properties of the completely fair scheduler\<close>

text \<open>
  Claim C5 says that the scheduling latency is \<open>max(TARGET_LATENCY, MIN_GRANULARITY * n)\<close>
  for every number \<open>n\<close> of runnable tasks, so 24 for \<open>n = 6\<close>. The code only leaves
  the target latency when \<open>nr_running > 8\<close>: with six runnable tasks it returns 20.
\<close>

theorem cfs_sched_latency_counterexample:
  "cfs_sched_latency (cfs_init\<lparr>rq_nr_running := 6\<rparr>) = 20 \<and>
   max CFS_TARGET_LATENCY (CFS_MIN_GRANULARITY * 6) = 24 \<and>
   cfs_sched_latency (cfs_init\<lparr>rq_nr_running := 6\<rparr>)
     \<noteq> max CFS_TARGET_LATENCY (CFS_MIN_GRANULARITY * rq_nr_running (cfs_init\<lparr>rq_nr_running := 6\<rparr>))"
  by (simp add: cfs_sched_latency_def cfs_init_def CFS_TARGET_LATENCY_def CFS_MIN_GRANULARITY_def)

lemma unat_4_times: "unat (4 * (w :: u32)) = (4 * unat w) mod 2 ^ 32"
  by (simp add: unat_word_ariths)

text \<open>
  Claim C5 as amended: \<open>cfs_sched_latency\<close> returns \<open>max(20, 4 * n)\<close> (in 32-bit
  arithmetic) for every \<open>n = nr_running\<close> except 6, 7 and 8, where the guard
  \<open>nr_running > 8\<close> keeps it at the target latency 20.
\<close>

theorem cfs_sched_latency_amended:
  "unat (cfs_sched_latency s) =
     (if unat (rq_nr_running s) \<in> {6, 7, 8} then 20
      else max 20 (4 * unat (rq_nr_running s)) mod 2 ^ 32)"
proof (cases "rq_nr_running s > 8")
  case True
  then have "unat (rq_nr_running s) > 8" by (simp add: word_less_nat_alt)
  with True show ?thesis
    by (simp add: cfs_sched_latency_def CFS_MIN_GRANULARITY_def unat_4_times max_def)
next
  case False
  then have le: "unat (rq_nr_running s) \<le> 8" by (simp add: word_less_nat_alt)
  then have "unat (rq_nr_running s) \<in> {6,7,8} \<or> unat (rq_nr_running s) \<le> 5" by auto
  with False le show ?thesis
    by (auto simp add: cfs_sched_latency_def CFS_TARGET_LATENCY_def max_def)
qed

subsection \<open>What the CFS helpers leave alone\<close>

lemma cfs_insert_task_keeps [simp]:
  "cfs_switches (cfs_insert_task t s) = cfs_switches s"
  "cfs_context_switches (cfs_insert_task t s) = cfs_context_switches s"
  "rq_min_vruntime (cfs_insert_task t s) = rq_min_vruntime s"
  "rq_curr (cfs_insert_task t s) = rq_curr s"
  by (simp_all add: cfs_insert_task_def Let_def split: list.splits)

lemma cfs_remove_task_keeps [simp]:
  "cfs_switches (cfs_remove_task t s) = cfs_switches s"
  "cfs_context_switches (cfs_remove_task t s) = cfs_context_switches s"
  "rq_min_vruntime (cfs_remove_task t s) = rq_min_vruntime s"
  "rq_curr (cfs_remove_task t s) = rq_curr s"
  by (simp_all add: cfs_remove_task_def)

lemma cfs_update_vruntime_keeps [simp]:
  "cfs_switches (cfs_update_vruntime t d s) = cfs_switches s"
  "cfs_context_switches (cfs_update_vruntime t d s) = cfs_context_switches s"
  "rq_min_vruntime (cfs_update_vruntime t d s) = rq_min_vruntime s"
  "rq_curr (cfs_update_vruntime t d s) = rq_curr s"
  by (simp_all add: cfs_update_vruntime_def Let_def)

lemma cfs_update_min_vruntime_keeps [simp]:
  "cfs_switches (cfs_update_min_vruntime s) = cfs_switches s"
  "cfs_context_switches (cfs_update_min_vruntime s) = cfs_context_switches s"
  "rq_curr (cfs_update_min_vruntime s) = rq_curr s"
  by (simp_all add: cfs_update_min_vruntime_def Let_def)

lemma cfs_update_current_keeps [simp]:
  "cfs_switches (cfs_update_current s) = cfs_switches s"
  "cfs_context_switches (cfs_update_current s) = cfs_context_switches s"
  "rq_curr (cfs_update_current s) = rq_curr s"
  by (simp_all add: cfs_update_current_def Let_def split: option.splits)

lemma cfs_put_prev_task_keeps [simp]:
  "cfs_switches (cfs_put_prev_task s) = cfs_switches s"
  "cfs_context_switches (cfs_put_prev_task s) = cfs_context_switches s"
  by (simp_all add: cfs_put_prev_task_def Let_def split: option.splits)

lemma cfs_set_curr_task_keeps [simp]:
  "cfs_switches (cfs_set_curr_task t s) = cfs_switches s"
  "cfs_context_switches (cfs_set_curr_task t s) = cfs_context_switches s"
  "rq_min_vruntime (cfs_set_curr_task t s) = rq_min_vruntime s"
  "rq_curr (cfs_set_curr_task t s) = Some t"
  by (simp_all add: cfs_set_curr_task_def)

lemma cfs_place_task_keeps [simp]:
  "rq_min_vruntime (cfs_place_task t i s) = rq_min_vruntime s"
  by (simp add: cfs_place_task_def Let_def)

text \<open>
  Claim C10: \<open>cfs_schedule\<close> never calls \<open>context_switch\<close> and never increments the
  \<open>switches\<close> statistic, in any state of the run queue: \<open>old_pid\<close> is read from
  \<open>cfs_rq.curr\<close> after \<open>cfs_set_curr_task\<close> has stored the chosen task there, so it
  always equals the chosen task's pid.
\<close>

theorem cfs_schedule_never_switches:
  "cfs_switches (cfs_schedule s) = cfs_switches s \<and>
   cfs_context_switches (cfs_schedule s) = cfs_context_switches s"
  by (simp add: cfs_schedule_def Let_def split: option.splits)

subsection \<open>Monotonicity of min_vruntime\<close>

lemma max64_ge: "a \<le> max64 a b"
  by (simp add: max64_def not_less)

lemma cfs_update_min_vruntime_mono:
  "rq_min_vruntime s \<le> rq_min_vruntime (cfs_update_min_vruntime s)"
  by (simp add: cfs_update_min_vruntime_def Let_def max64_ge)

lemma cfs_update_current_mono:
  "rq_min_vruntime s \<le> rq_min_vruntime (cfs_update_current s)"
proof (cases "rq_curr s")
  case None
  then show ?thesis by (simp add: cfs_update_current_def)
next
  case (Some c)
  let ?d = "rq_clock_task s - ct_exec_start (cfs_task_pool s c)"
  let ?s1 = "cfs_update_vruntime c ?d s"
  let ?s2 = "?s1\<lparr>cfs_task_pool := (cfs_task_pool ?s1)
                 (c := (cfs_task_pool ?s1 c)\<lparr>ct_exec_start := rq_clock_task s\<rparr>)\<rparr>"
  have "rq_min_vruntime ?s2 = rq_min_vruntime s" by simp
  moreover have "rq_min_vruntime ?s2 \<le> rq_min_vruntime (cfs_update_min_vruntime ?s2)"
    by (rule cfs_update_min_vruntime_mono)
  ultimately show ?thesis using Some
    by (simp add: cfs_update_current_def Let_def)
qed

lemma cfs_put_prev_task_mono:
  "rq_min_vruntime s \<le> rq_min_vruntime (cfs_put_prev_task s)"
  using cfs_update_current_mono [of s]
  by (simp add: cfs_put_prev_task_def Let_def split: option.splits)

lemma cfs_schedule_min_vruntime:
  "rq_min_vruntime (cfs_schedule s) =
   rq_min_vruntime (cfs_put_prev_task
     (let s1 = s\<lparr>rq_clock := cfs_system_clock s, rq_clock_task := cfs_system_clock s\<rparr>
      in if rq_curr s1 \<noteq> None then cfs_update_current s1 else s1))"
  by (cases "rq_curr s") (simp_all add: cfs_schedule_def Let_def split: option.splits)

lemma cfs_schedule_mono:
  "rq_min_vruntime s \<le> rq_min_vruntime (cfs_schedule s)"
proof -
  define s1 where "s1 = s\<lparr>rq_clock := cfs_system_clock s, rq_clock_task := cfs_system_clock s\<rparr>"
  define s2 where "s2 = (if rq_curr s1 \<noteq> None then cfs_update_current s1 else s1)"
  have "rq_min_vruntime s = rq_min_vruntime s1"
    by (simp add: s1_def)
  also have "\<dots> \<le> rq_min_vruntime s2"
    using cfs_update_current_mono [of s1] by (simp add: s2_def)
  also have "\<dots> \<le> rq_min_vruntime (cfs_put_prev_task s2)"
    by (rule cfs_put_prev_task_mono)
  also have "\<dots> = rq_min_vruntime (cfs_schedule s)"
    unfolding cfs_schedule_min_vruntime s2_def s1_def Let_def ..
  finally show ?thesis .
qed

lemma cfs_yield_mono:
  "rq_min_vruntime s \<le> rq_min_vruntime (cfs_yield s)"
proof (cases "rq_curr s")
  case None
  then show ?thesis by (simp add: cfs_yield_def)
next
  case (Some c)
  define s1 where "s1 = cfs_update_current s"
  define s2 where "s2 = (case rq_leftmost s1 of None \<Rightarrow> s1
     | Some l \<Rightarrow> s1\<lparr>cfs_task_pool := (cfs_task_pool s1)
          (c := (cfs_task_pool s1 c)
             \<lparr>ct_vruntime := max64 (ct_vruntime (cfs_task_pool s1 c))
                                   (ct_vruntime (cfs_task_pool s1 l))\<rparr>)\<rparr>)"
  have "rq_min_vruntime s \<le> rq_min_vruntime s1"
    unfolding s1_def by (rule cfs_update_current_mono)
  also have "\<dots> = rq_min_vruntime s2"
    by (simp add: s2_def split: option.splits)
  also have "\<dots> \<le> rq_min_vruntime (cfs_schedule s2)"
    by (rule cfs_schedule_mono)
  also have "cfs_schedule s2 = cfs_yield s"
    using Some unfolding s2_def s1_def cfs_yield_def Let_def by simp
  finally show ?thesis .
qed

lemma cfs_enqueue_min_vruntime:
  "rq_min_vruntime (cfs_enqueue p s) = rq_min_vruntime s"
  by (simp add: cfs_enqueue_def cfs_alloc_task_def Let_def split: option.splits list.splits)

lemma cfs_wakeup_min_vruntime:
  "rq_min_vruntime (cfs_wakeup p s) = rq_min_vruntime s"
  by (simp add: cfs_wakeup_def Let_def split: option.splits)

lemma cfs_sleep_mono:
  "rq_min_vruntime s \<le> rq_min_vruntime (cfs_sleep p s)"
proof (cases "cfs_find_task s p")
  case None
  then show ?thesis by (simp add: cfs_sleep_def)
next
  case (Some t)
  define s0 where "s0 = s\<lparr>cfs_task_pool := (cfs_task_pool s)
                 (t := (cfs_task_pool s t)\<lparr>ct_sleep_start := cfs_system_clock s\<rparr>)\<rparr>"
  define s1 where "s1 = (if rq_curr s0 = Some t
                     then (cfs_update_current s0)\<lparr>rq_curr := None\<rparr> else s0)"
  have "rq_min_vruntime s = rq_min_vruntime s0"
    by (simp add: s0_def)
  also have "\<dots> \<le> rq_min_vruntime s1"
    using cfs_update_current_mono [of s0] by (simp add: s1_def)
  also have "\<dots> = rq_min_vruntime (cfs_sleep p s)"
    using Some unfolding cfs_sleep_def s1_def s0_def Let_def by simp
  finally show ?thesis .
qed

lemma cfs_dequeue_mono:
  "rq_min_vruntime s \<le> rq_min_vruntime (cfs_dequeue p s)"
proof (cases "cfs_find_task s p")
  case None
  then show ?thesis by (simp add: cfs_dequeue_def)
next
  case (Some t)
  define s1 where "s1 = (if rq_curr s = Some t
                         then (cfs_update_current s)\<lparr>rq_curr := None\<rparr> else s)"
  define s2 where "s2 = (if ct_on_rq (cfs_task_pool s1 t)
             then (let r = cfs_remove_task t s1
                   in r\<lparr>rq_nr_running := rq_nr_running r - 1,
                         rq_load_weight := rq_load_weight r - ct_weight (cfs_task_pool r t)\<rparr>)
             else s1)"
  have "rq_min_vruntime s \<le> rq_min_vruntime s1"
    using cfs_update_current_mono [of s] by (simp add: s1_def)
  also have "\<dots> = rq_min_vruntime (cfs_free_task t s2)"
    by (simp add: cfs_free_task_def s2_def Let_def)
  also have "\<dots> \<le> rq_min_vruntime (cfs_update_min_vruntime (cfs_free_task t s2))"
    by (rule cfs_update_min_vruntime_mono)
  also have "cfs_update_min_vruntime (cfs_free_task t s2) = cfs_dequeue p s"
    using Some unfolding cfs_dequeue_def s2_def s1_def Let_def by simp
  finally show ?thesis .
qed

lemma cfs_tick_mono:
  assumes "cfs_tick s = Some s'"
  shows "rq_min_vruntime s \<le> rq_min_vruntime s'"
proof -
  define s2 where "s2 = s\<lparr>cfs_system_clock := cfs_system_clock s + 1,
               rq_clock := cfs_system_clock s + 1, rq_clock_task := cfs_system_clock s + 1\<rparr>"
  have s2: "rq_min_vruntime s2 = rq_min_vruntime s" "rq_curr s2 = rq_curr s"
    by (simp_all add: s2_def)
  show ?thesis
  proof (cases "rq_curr s")
    case None
    with assms have "s' = s2" by (simp add: cfs_tick_def Let_def s2_def)
    with s2 show ?thesis by simp
  next
    case (Some c)
    define s3 where "s3 = cfs_update_current s2"
    define s4 where "s4 = s3\<lparr>cfs_task_pool := (cfs_task_pool s3)
                  (c := (cfs_task_pool s3 c)\<lparr>ct_prev_sum_exec := ct_sum_exec (cfs_task_pool s3 c)\<rparr>)\<rparr>"
    have a: "rq_min_vruntime s \<le> rq_min_vruntime s3"
      using cfs_update_current_mono [of s2] s2 by (simp add: s3_def)
    have "rq_min_vruntime s3 = rq_min_vruntime s4" by (simp add: s4_def)
    also have "\<dots> \<le> rq_min_vruntime (cfs_schedule s4)" by (rule cfs_schedule_mono)
    finally have b: "rq_min_vruntime s3 \<le> rq_min_vruntime (cfs_schedule s4)" .
    from assms Some have "s' = s3 \<or> s' = cfs_schedule s4"
      unfolding cfs_tick_def Let_def s4_def s3_def s2_def
      by (simp split: option.splits if_splits)
    with a b show ?thesis using order_trans by blast
  qed
qed

text \<open>
  Claim C6: \<open>min_vruntime\<close> never decreases. For each of tick, schedule, enqueue,
  dequeue, sleep, wakeup and yield, the value of \<open>cfs_rq.min_vruntime\<close> after the
  operation is at least its value before (as unsigned 64-bit numbers). A tick that
  divides by a zero \<open>load_weight\<close> has no state after it.
\<close>

theorem cfs_min_vruntime_monotone:
  "(\<forall>s'. cfs_tick s = Some s' \<longrightarrow> rq_min_vruntime s \<le> rq_min_vruntime s') \<and>
   rq_min_vruntime s \<le> rq_min_vruntime (cfs_schedule s) \<and>
   rq_min_vruntime s \<le> rq_min_vruntime (cfs_enqueue p s) \<and>
   rq_min_vruntime s \<le> rq_min_vruntime (cfs_dequeue p s) \<and>
   rq_min_vruntime s \<le> rq_min_vruntime (cfs_sleep p s) \<and>
   rq_min_vruntime s \<le> rq_min_vruntime (cfs_wakeup p s) \<and>
   rq_min_vruntime s \<le> rq_min_vruntime (cfs_yield s)"
  using cfs_tick_mono [of s]
  by (simp add: cfs_schedule_mono cfs_enqueue_min_vruntime cfs_dequeue_mono cfs_sleep_mono
      cfs_wakeup_min_vruntime cfs_yield_mono)

lemma cfs_free_tasks_peel:
  "i < CFS_MAX_TASKS \<Longrightarrow> [i..<CFS_MAX_TASKS] = i # [Suc i..<CFS_MAX_TASKS]"
  by (rule upt_conv_Cons)

lemma cfs_max_tasks_gt: "0 < CFS_MAX_TASKS" "Suc 0 < CFS_MAX_TASKS"
  by (simp_all add: CFS_MAX_TASKS_def)

lemmas cfs_eval =
  cfs_enqueue_def cfs_init_def cfs_find_task_def cfs_alloc_task_def
  cfs_free_tasks_peel cfs_max_tasks_gt cfs_insert_task_def cfs_place_task_def Let_def
  cfs_zero_task_def cfs_schedule_def cfs_put_prev_task_def cfs_pick_next_task_def
  cfs_remove_task_def cfs_set_curr_task_def cfs_update_current_def cfs_update_vruntime_def
  cfs_update_min_vruntime_def cfs_calc_delta_def cfs_sched_latency_def cfs_nice_to_weight_def
  cfs_weight_table_def CFS_NICE_DEFAULT_def CFS_NICE_LEVELS_def CFS_TARGET_LATENCY_def
  CFS_MIN_GRANULARITY_def CFS_WEIGHT_NICE0_def max64_def cfs_timeslice_def cfs_tick_def

lemma cfs_two_tasks_running:
  "cfs_schedule (cfs_enqueue 2 (cfs_enqueue 1 cfs_init)) =
   \<lparr>cfs_task_pool = (\<lambda>_. cfs_zero_task)
      (Suc 0 := \<lparr>ct_pid = 2, ct_nice = 0, ct_weight = 1024, ct_vruntime = 10,
             ct_exec_start = 0, ct_sum_exec = 0, ct_prev_sum_exec = 0, ct_sleep_start = 0,
             ct_on_rq = True\<rparr>,
       0 := \<lparr>ct_pid = 1, ct_nice = 0, ct_weight = 1024, ct_vruntime = 10,
             ct_exec_start = 0, ct_sum_exec = 0, ct_prev_sum_exec = 0, ct_sleep_start = 0,
             ct_on_rq = False\<rparr>),
     cfs_free_tasks = [Suc (Suc 0)..<CFS_MAX_TASKS],
     rq_nr_running = 2, rq_min_vruntime = 0, rq_clock = 0, rq_clock_task = 0,
     rq_load_weight = 2048, rq_tasks_timeline = [Suc 0], rq_curr = Some 0,
     rq_leftmost = Some (Suc 0),
     cfs_switches = 0, cfs_total_runtime = 0, cfs_sleep_time = 0,
     cfs_system_clock = 0, cfs_context_switches = []\<rparr>"
  by (simp add: cfs_eval)

text \<open>
  Witness for C6: with pids 1 and 2 enqueued and pid 1 running, a tick returns a state.
\<close>

theorem cfs_min_vruntime_monotone_witness:
  "\<exists>s'. cfs_tick (cfs_schedule (cfs_enqueue 2 (cfs_enqueue 1 cfs_init))) = Some s' \<and>
      rq_min_vruntime (cfs_schedule (cfs_enqueue 2 (cfs_enqueue 1 cfs_init)))
        \<le> rq_min_vruntime s'"
proof -
  have "cfs_tick (cfs_schedule (cfs_enqueue 2 (cfs_enqueue 1 cfs_init))) \<noteq> None"
    unfolding cfs_two_tasks_running by (simp add: cfs_eval)
  then obtain s' where
    "cfs_tick (cfs_schedule (cfs_enqueue 2 (cfs_enqueue 1 cfs_init))) = Some s'"
    by blast
  then show ?thesis
    using cfs_min_vruntime_monotone
      [of "cfs_schedule (cfs_enqueue 2 (cfs_enqueue 1 cfs_init))"]
    by blast
qed


section \<open>Properties of the lottery scheduler\<close>





lemma running_sum_nat:
  assumes "sum_list (map (\<lambda>e. unat (le_current_tickets (lot_entry_pool s e)))
             (lot_lottery_pool s)) < 2 ^ 32"
  shows "unat (running_sum s k)
         = sum_list (map (\<lambda>e. unat (le_current_tickets (lot_entry_pool s e)))
             (take k (lot_lottery_pool s)))"
proof -
  have gen: "sum_list (map (\<lambda>e. unat (f e)) xs) < 2 ^ 32 \<Longrightarrow>
     unat (sum_list (map f xs)) = sum_list (map (\<lambda>e. unat (f e)) xs)"
    for f :: "nat \<Rightarrow> u32" and xs
  proof (induction xs)
    case Nil
    then show ?case by simp
  next
    case (Cons x xs)
    then have "unat (sum_list (map f xs)) = sum_list (map (\<lambda>e. unat (f e)) xs)" by simp
    with Cons.prems show ?case by (simp add: unat_word_ariths)
  qed
  have "sum_list (map (\<lambda>e. unat (le_current_tickets (lot_entry_pool s e)))
             (take k (lot_lottery_pool s)))
        \<le> sum_list (map (\<lambda>e. unat (le_current_tickets (lot_entry_pool s e)))
             (lot_lottery_pool s))"
  proof -
    have "sum_list (map g (take k xs)) \<le> sum_list (map g xs)" for g :: "nat \<Rightarrow> nat" and xs
      by (metis append_take_drop_id le_add1 map_append sum_list_append)
    then show ?thesis .
  qed
  with assms have "sum_list (map (\<lambda>e. unat (le_current_tickets (lot_entry_pool s e)))
             (take k (lot_lottery_pool s))) < 2 ^ 32" by simp
  then show ?thesis unfolding running_sum_def by (rule gen)
qed

text \<open>
  When the cached total is the sum of the entries' tickets, a winning ticket below the
  total always meets a first entry whose running sum exceeds it.
\<close>

lemma lottery_winner_exists:
  assumes total: "sum_list (map (\<lambda>e. unat (le_current_tickets (lot_entry_pool s e)))
             (lot_lottery_pool s)) = unat (lot_total_tickets s)"
    and w: "w < lot_total_tickets s"
  shows "\<exists>i < length (lot_lottery_pool s).
           (\<forall>j<i. running_sum s (Suc j) \<le> w) \<and> running_sum s (Suc i) > w"
proof -
  let ?f = "\<lambda>k. unat (running_sum s k)"
  have small: "sum_list (map (\<lambda>e. unat (le_current_tickets (lot_entry_pool s e)))
             (lot_lottery_pool s)) < 2 ^ 32"
    using total unsigned_less [of "lot_total_tickets s", where 'a = nat] by simp
  have full: "?f (length (lot_lottery_pool s)) = unat (lot_total_tickets s)"
    using running_sum_nat [OF small, of "length (lot_lottery_pool s)"] total by simp
  have zero: "?f 0 = 0" by (simp add: running_sum_def)
  define k where "k = (LEAST k. ?f k > unat w)"
  have ex: "?f (length (lot_lottery_pool s)) > unat w"
    using full w by (simp add: word_less_nat_alt)
  then have k1: "?f k > unat w" unfolding k_def by (rule LeastI)
  have k2: "k \<le> length (lot_lottery_pool s)" unfolding k_def using ex by (rule Least_le)
  have k3: "\<And>j. j < k \<Longrightarrow> \<not> ?f j > unat w" unfolding k_def by (rule not_less_Least)
  have "k \<noteq> 0" using k1 zero by (cases k) auto
  then obtain i where i: "k = Suc i" by (cases k) auto
  have "i < length (lot_lottery_pool s)" using k2 i by simp
  moreover have "running_sum s (Suc i) > w" using k1 i by (simp add: word_less_nat_alt)
  moreover have "\<forall>j<i. running_sum s (Suc j) \<le> w"
    using k3 i by (auto simp add: word_le_nat_alt not_less)
  ultimately show ?thesis by blast
qed


lemma lottery_free_entries_peel:
  "i < LOTTERY_MAX_ENTRIES \<Longrightarrow>
   [i..<LOTTERY_MAX_ENTRIES] = i # [Suc i..<LOTTERY_MAX_ENTRIES]"
  by (rule upt_conv_Cons)

lemma lottery_max_entries_gt: "0 < LOTTERY_MAX_ENTRIES" "Suc 0 < LOTTERY_MAX_ENTRIES"
  by (simp_all add: LOTTERY_MAX_ENTRIES_def)

lemmas lottery_eval =
  lottery_boot_def lottery_init_def lottery_enqueue_def lottery_find_entry_def
  lottery_alloc_entry_def lottery_zero_entry_def lottery_free_entries_peel
  lottery_max_entries_gt LOTTERY_DEFAULT_TICKETS_def LOTTERY_COMPENSATION_ENABLED_def
  LOTTERY_MIN_TICKETS_def LOTTERY_MAX_TICKETS_def Let_def




section \<open>Round trip of enqueue and dequeue\<close>

lemma lottery_one_entry:
  "lottery_enqueue 1 (lottery_init lottery_boot) =
   \<lparr>lot_entry_pool = (\<lambda>_. lottery_zero_entry)
      (0 := \<lparr>le_pid = 1, le_base_tickets = 100, le_current_tickets = 100,
             le_compensation = 0, le_wins = 0, le_total_tickets_held = 0\<rparr>),
     lot_free_entries = [Suc 0..<LOTTERY_MAX_ENTRIES],
     lot_lottery_pool = [0],
     lot_total_tickets = 100, lot_participant_count = 1,
     lot_compensation_enabled = True,
     lot_current_pid = -1, lot_time_remaining = 0, lot_random_state = 1,
     lot_stats_total_lotteries = 0, lot_stats_total_tickets = 100,
     lot_stats_participant_count = 1, lot_stats_tickets_transferred = 0,
     lot_stats_compensation_given = 0\<rparr>"
  by (simp add: lottery_eval)

text \<open>
  Claim C2 says that after any sequence of the lottery operations the sum of
  \<open>current_tickets\<close> equals the cached \<open>total_tickets\<close>. \<open>lottery_compensate\<close> subtracts
  the old compensation from the total and then adds the whole new \<open>current_tickets\<close>:
  after \<open>lottery_init\<close>, \<open>lottery_enqueue(1)\<close>, \<open>lottery_compensate(1, 1.0)\<close> the only
  entry holds 100 tickets, the cached total is 200, and \<open>lottery_validate\<close>, which was
  true before the call, is false.
\<close>

theorem lottery_compensate_breaks_total:
  "lottery_validate (lottery_enqueue 1 (lottery_init lottery_boot))
   \<and> lot_total_tickets
        (lottery_compensate comp_of 1 1 (lottery_enqueue 1 (lottery_init lottery_boot))) = 200
   \<and> map (\<lambda>e. le_current_tickets
                 (lot_entry_pool
                    (lottery_compensate comp_of 1 1
                       (lottery_enqueue 1 (lottery_init lottery_boot))) e))
         (lot_lottery_pool
            (lottery_compensate comp_of 1 1 (lottery_enqueue 1 (lottery_init lottery_boot))))
       = [100]
   \<and> \<not> lottery_validate
          (lottery_compensate comp_of 1 1 (lottery_enqueue 1 (lottery_init lottery_boot)))"
  unfolding lottery_one_entry
  by (simp add: lottery_validate_def lottery_compensate_def lottery_find_entry_def Let_def
      LOTTERY_MIN_TICKETS_def LOTTERY_MAX_TICKETS_def)











section \<open>Properties of the priority scheduler\<close>

text \<open>
  A tick on a queue of one node with aging switched off, while the node has waited less
  than the starvation threshold: only the clock and the node's \<open>wait_time\<close> advance.
\<close>

lemma priority_tick_single:
  assumes q: "prio_queue s = [n]" and ag: "\<not> aging_enabled s"
    and w: "unat (pn_wait_time (prio_node_pool s n)) < unat (PRIO_STARVATION_THRESHOLD cfg)"
  shows "snd (priority_tick cfg (env, s)) =
           s\<lparr>prio_ticks := prio_ticks s + 1,
             prio_node_pool := (prio_node_pool s)
               (n := (prio_node_pool s n)
                  \<lparr>pn_wait_time := pn_wait_time (prio_node_pool s n) + 1\<rparr>)\<rparr>"
proof -
  have "unat (pn_wait_time (prio_node_pool s n) + 1)
          = unat (pn_wait_time (prio_node_pool s n)) + 1"
    using w unsigned_less [of "PRIO_STARVATION_THRESHOLD cfg", where 'a = nat]
    by (simp add: unat_word_ariths)
  with w have "\<not> pn_wait_time (prio_node_pool s n) + 1 > PRIO_STARVATION_THRESHOLD cfg"
    by (simp add: word_less_nat_alt)
  with q ag show ?thesis
    by (simp add: priority_tick_def priority_check_starvation_def Let_def)
qed

lemma priority_ticks_single:
  assumes q: "prio_queue s = [n]" and ag: "\<not> aging_enabled s"
    and w: "unat (pn_wait_time (prio_node_pool s n)) + k
              \<le> unat (PRIO_STARVATION_THRESHOLD cfg)"
  shows "snd ((priority_tick cfg ^^ k) (env, s)) =
           s\<lparr>prio_ticks := prio_ticks s + of_nat k,
             prio_node_pool := (prio_node_pool s)
               (n := (prio_node_pool s n)
                  \<lparr>pn_wait_time := pn_wait_time (prio_node_pool s n) + of_nat k\<rparr>)\<rparr>"
  using w
proof (induction k)
  case 0
  then show ?case by simp
next
  case (Suc k)
  define s' where "s' = s\<lparr>prio_ticks := prio_ticks s + of_nat k,
             prio_node_pool := (prio_node_pool s)
               (n := (prio_node_pool s n)
                  \<lparr>pn_wait_time := pn_wait_time (prio_node_pool s n) + of_nat k\<rparr>)\<rparr>"
  have "unat (pn_wait_time (prio_node_pool s n)) + k
              \<le> unat (PRIO_STARVATION_THRESHOLD cfg)"
    using Suc.prems by simp
  then have IH: "snd ((priority_tick cfg ^^ k) (env, s)) = s'"
    unfolding s'_def by (rule Suc.IH)
  obtain env' where pair: "(priority_tick cfg ^^ k) (env, s) = (env', s')"
    using IH by (metis prod.collapse)
  have small: "unat (pn_wait_time (prio_node_pool s n)) + k < 2 ^ 64"
    using Suc.prems unsigned_less [of "PRIO_STARVATION_THRESHOLD cfg", where 'a = nat]
    by simp
  have wk: "unat (pn_wait_time (prio_node_pool s n) + of_nat k)
              = unat (pn_wait_time (prio_node_pool s n)) + k"
    using small by (simp add: unat_word_ariths unat_of_nat)
  have q': "prio_queue s' = [n]" and ag': "\<not> aging_enabled s'"
    using q ag by (simp_all add: s'_def)
  have w': "unat (pn_wait_time (prio_node_pool s' n)) < unat (PRIO_STARVATION_THRESHOLD cfg)"
    using wk Suc.prems by (simp add: s'_def)
  have "snd ((priority_tick cfg ^^ Suc k) (env, s)) = snd (priority_tick cfg (env', s'))"
    using pair by simp
  also have "\<dots> = s'\<lparr>prio_ticks := prio_ticks s' + 1,
             prio_node_pool := (prio_node_pool s')
               (n := (prio_node_pool s' n)
                  \<lparr>pn_wait_time := pn_wait_time (prio_node_pool s' n) + 1\<rparr>)\<rparr>"
    by (rule priority_tick_single [OF q' ag' w'])
  also have "\<dots> = s\<lparr>prio_ticks := prio_ticks s + of_nat (Suc k),
             prio_node_pool := (prio_node_pool s)
               (n := (prio_node_pool s n)
                  \<lparr>pn_wait_time := pn_wait_time (prio_node_pool s n) + of_nat (Suc k)\<rparr>)\<rparr>"
    by (simp add: s'_def add.assoc add.commute)
  finally show ?case .
qed

lemma upt_two: "3 \<le> n \<Longrightarrow> [0..<n] = 0 # 1 # [2..<n]"
  by (simp add: upt_conv_Cons numeral_2_eq_2)

text \<open>
  Claim C3 says that the ready list stays sorted descending by \<open>current_priority\<close>
  after any sequence of operations, also after a tick whose starvation guard boosts a
  waiting node. \<open>priority_check_starvation\<close> raises \<open>current_priority\<close> in place and never
  moves the node. For every starvation threshold of at least 1 and boost of at least 2:
  after \<open>priority_init\<close>, \<open>priority_aging_enable(false)\<close>, \<open>priority_enqueue(1)\<close>
  (priority 0), threshold-many ticks and \<open>priority_enqueue(2)\<close> (priority 1) the list is
  pid 2, pid 1 and \<open>priority_validate\<close> holds; one more tick boosts pid 1 above pid 2
  behind it, and \<open>priority_validate\<close> reports the order violation.
\<close>

theorem priority_starvation_boost_unsorts:
  assumes nproc: "3 \<le> nproc"
    and p1: "proctab_pprio env 1 = 0" and p2: "proctab_pprio env 2 = 1"
    and t1: "1 \<le> PRIO_STARVATION_THRESHOLD cfg"
    and t2: "PRIO_STARVATION_THRESHOLD cfg + 1 \<noteq> 0"
    and b: "2 \<le> PRIO_STARVATION_BOOST cfg"
  shows "priority_validate nproc
           (priority_enqueue nproc env 2
              (snd ((priority_tick cfg ^^ unat (PRIO_STARVATION_THRESHOLD cfg))
                 (env, priority_enqueue nproc env 1
                         (priority_aging_enable False
                            (priority_init cfg nproc (prio_boot cfg)))))))
       \<and> \<not> priority_validate nproc
           (snd (priority_tick cfg
              (env, priority_enqueue nproc env 2
                (snd ((priority_tick cfg ^^ unat (PRIO_STARVATION_THRESHOLD cfg))
                   (env, priority_enqueue nproc env 1
                           (priority_aging_enable False
                              (priority_init cfg nproc (prio_boot cfg)))))))))"
proof -
  define T where "T = PRIO_STARVATION_THRESHOLD cfg"
  define s0 where "s0 = priority_aging_enable False (priority_init cfg nproc (prio_boot cfg))"
  define node0 where "node0 = \<lparr>pn_pid = 1, pn_base_priority = 0, pn_current_priority = 0,
     pn_wait_time = 0, pn_last_run = 0, pn_cpu_burst = 0, pn_io_bound = False\<rparr>"
  define s1 where "s1 = s0\<lparr>prio_free_nodes := 1 # [2..<nproc],
     prio_node_pool := (prio_node_pool s0)(0 := node0),
     prio_queue := [0], prio_queue_count := 1, prio_stats_current_queue_length := 1\<rparr>"
  define s2 where "s2 = s1\<lparr>prio_ticks := T,
     prio_node_pool := (prio_node_pool s1)(0 := node0\<lparr>pn_wait_time := T\<rparr>)\<rparr>"
  define node1 where "node1 = \<lparr>pn_pid = 2, pn_base_priority = 1, pn_current_priority = 1,
     pn_wait_time = 0, pn_last_run = T, pn_cpu_burst = 0, pn_io_bound = False\<rparr>"
  define s3 where "s3 = s2\<lparr>prio_free_nodes := [2..<nproc],
     prio_node_pool := (prio_node_pool s2)(1 := node1),
     prio_queue := [1, 0], prio_queue_count := 2, prio_stats_current_queue_length := 2\<rparr>"
  have s0: "prio_free_nodes s0 = 0 # 1 # [2..<nproc]" "prio_queue s0 = []"
    "\<not> aging_enabled s0" "prio_queue_count s0 = 0" "prio_ticks s0 = 0"
    using upt_two [OF nproc]
    by (simp_all add: s0_def priority_aging_enable_def priority_init_def prio_pool_init_def)
  have e1: "priority_enqueue nproc env 1 s0 = s1"
    using nproc s0 p1
    by (simp add: priority_enqueue_def prio_find_node_def priority_insert_ordered_def
        prio_node_alloc_def Let_def s1_def node0_def PRIORITY_DEFAULT_def)
  have "snd ((priority_tick cfg ^^ unat T) (env, s1)) =
           s1\<lparr>prio_ticks := prio_ticks s1 + of_nat (unat T),
             prio_node_pool := (prio_node_pool s1)
               (0 := (prio_node_pool s1 0)
                  \<lparr>pn_wait_time := pn_wait_time (prio_node_pool s1 0) + of_nat (unat T)\<rparr>)\<rparr>"
    unfolding T_def
    by (rule priority_ticks_single) (simp_all add: s1_def s0 node0_def)
  then have e2: "snd ((priority_tick cfg ^^ unat T) (env, s1)) = s2"
    by (simp add: s2_def s1_def s0 node0_def)
  have e3: "priority_enqueue nproc env 2 s2 = s3"
    using nproc p2
    by (simp add: priority_enqueue_def prio_find_node_def priority_insert_ordered_def
        prio_node_alloc_def Let_def s3_def s2_def s1_def node0_def node1_def
        PRIORITY_DEFAULT_def)
  have valid3: "priority_validate nproc s3"
    using nproc
    by (simp add: priority_validate_def s3_def s2_def s1_def node0_def node1_def)
  have T1: "\<not> (1 :: u64) > T"
    using t1 unfolding T_def by (simp add: word_less_nat_alt word_le_nat_alt)
  have "unat (T + 1) = unat T + 1"
    using t2 unatSuc [of T] unfolding T_def by (simp add: add.commute)
  then have T2: "T + 1 > T" by (simp add: word_less_nat_alt)
  define c where "c = (if PRIO_STARVATION_BOOST cfg > PRIORITY_MAX then PRIORITY_MAX
                       else PRIO_STARVATION_BOOST cfg)"
  have c: "c > 1" using b by (auto simp add: c_def PRIORITY_MAX_def word_less_nat_alt word_le_nat_alt)
  have q4: "prio_queue (snd (priority_tick cfg (env, s3))) = [1, 0]"
    by (simp add: priority_tick_def priority_check_starvation_def Let_def s3_def s2_def s1_def
        s0 split: list.splits)
  have n1: "pn_current_priority (prio_node_pool (snd (priority_tick cfg (env, s3))) 1) = 1"
    using T1
    by (simp add: priority_tick_def priority_check_starvation_def Let_def s3_def s2_def s1_def
        s0 node0_def node1_def T_def [symmetric] split: list.splits)
  have n0: "pn_current_priority (prio_node_pool (snd (priority_tick cfg (env, s3))) 0) = c"
    using T1 T2
    by (simp add: priority_tick_def priority_check_starvation_def Let_def s3_def s2_def s1_def
        s0 node0_def node1_def T_def [symmetric] c_def split: list.splits)
  have "\<not> prio_ordered (prio_node_pool (snd (priority_tick cfg (env, s3))))
            (prio_queue (snd (priority_tick cfg (env, s3))))"
    using c q4 n0 n1 by simp
  then have "\<not> priority_validate nproc (snd (priority_tick cfg (env, s3)))"
    by (simp add: priority_validate_def)
  with valid3 show ?thesis
    unfolding s0_def [symmetric] e1 T_def [symmetric] e2 e3 by simp
qed

text \<open>Witness for C3: threshold 3, boost 10, \<open>NPROC = 4\<close>.\<close>

theorem priority_starvation_boost_unsorts_witness:
  "priority_validate 4
     (priority_enqueue 4 prio_example_env 2
        (snd ((priority_tick prio_example_config
                 ^^ unat (PRIO_STARVATION_THRESHOLD prio_example_config))
           (prio_example_env, priority_enqueue 4 prio_example_env 1
                   (priority_aging_enable False
                      (priority_init prio_example_config 4
                         (prio_boot prio_example_config)))))))
   \<and> \<not> priority_validate 4
       (snd (priority_tick prio_example_config
          (prio_example_env, priority_enqueue 4 prio_example_env 2
            (snd ((priority_tick prio_example_config
                     ^^ unat (PRIO_STARVATION_THRESHOLD prio_example_config))
               (prio_example_env, priority_enqueue 4 prio_example_env 1
                       (priority_aging_enable False
                          (priority_init prio_example_config 4
                             (prio_boot prio_example_config)))))))))"
proof -
  have h1: "3 \<le> (4 :: nat)" by simp
  have h2: "proctab_pprio prio_example_env 1 = 0" by (simp add: prio_example_env_def)
  have h3: "proctab_pprio prio_example_env 2 = 1" by (simp add: prio_example_env_def)
  have h4: "1 \<le> PRIO_STARVATION_THRESHOLD prio_example_config"
    by (simp add: prio_example_config_def)
  have h5: "PRIO_STARVATION_THRESHOLD prio_example_config + 1 \<noteq> 0"
    by (simp add: prio_example_config_def)
  have h6: "2 \<le> PRIO_STARVATION_BOOST prio_example_config"
    by (simp add: prio_example_config_def)
  show ?thesis by (rule priority_starvation_boost_unsorts [OF h1 h2 h3 h4 h5 h6])
qed


section \<open>Multi-level feedback queue: time accounting and demotion\<close>































end
